theory Spec2Isabelle
  imports Complex_Main
begin

section \<open>The site script \<^verbatim>\<open>src/script.js\<close>\<close>

text \<open>
  The script runs once on \<^verbatim>\<open>DOMContentLoaded\<close> and installs event handlers: a
  quick-booking form, a full booking form with a network attempt and a local fallback,
  article buttons and a generated twelve-sector diagram that open a modal. The handlers
  share one \<^verbatim>\<open>localStorage\<close> key, \<^verbatim>\<open>jyotir_bookings\<close>.

  Conventions of the embedding:
  \<^item> a JavaScript number is a \<^typ>\<open>real\<close> (IEEE rounding is not modelled; the integers
    the script computes with are exact in both);
  \<^item> a JavaScript string is a \<^typ>\<open>string\<close>, its characters read as UTF-8 bytes;
  \<^item> \<^verbatim>\<open>undefined\<close> and a missing element are \<open>None\<close>;
  \<^item> an exception that leaves a handler is the left injection of a sum; the handlers
    that can raise do so before they change anything, so the page is then as it was;
  \<^item> what the browser supplies and the script only calls (\<^verbatim>\<open>JSON.parse\<close>,
    \<^verbatim>\<open>JSON.stringify\<close>, \<^verbatim>\<open>trim\<close>, number formatting) is a parameter, the record
    \<open>platform\<close>;
  \<^item> what the user or the network supplies (field values, the clock, the response) is
    an argument of the handler.
\<close>

subsection \<open>Values\<close>

datatype jsval =
    JNull
  | JBool bool
  | JNum real
  | JStr string
  | JArr "jsval list"
  | JObj "(string \<times> jsval) list"

datatype exn = SyntaxError | TypeError | QuotaExceededError

text \<open>
  \<open>JSON_parse\<close> returns the parsed value or raises \<open>SyntaxError\<close>. \<open>String_trim\<close> is
  \<^verbatim>\<open>String.prototype.trim\<close>. \<open>index_before v\<close> is the property key that
  \<^verbatim>\<open>x[v - 1]\<close> reads, or the \<open>TypeError\<close> that converting \<open>v\<close> to a number raises, and \<open>native_text k\<close> the text that a template literal gives
  for the member \<open>k\<close> of \<^verbatim>\<open>Object.prototype\<close>.
\<close>

record platform =
  JSON_parse :: "string \<Rightarrow> exn + jsval"
  JSON_stringify :: "jsval \<Rightarrow> string"
  String_trim :: "string \<Rightarrow> string"
  Number_toString :: "real \<Rightarrow> string"
  index_before :: "jsval \<Rightarrow> exn + string"
  native_text :: "string \<Rightarrow> string"

text \<open>Truthiness, as \<^verbatim>\<open>?:\<close>, \<^verbatim>\<open>||\<close> and \<^verbatim>\<open>!\<close> test it.\<close>

fun truthy :: "jsval \<Rightarrow> bool" where
  "truthy JNull = False"
| "truthy (JBool b) = b"
| "truthy (JNum v) = (v \<noteq> 0)"
| "truthy (JStr s) = (s \<noteq> [])"
| "truthy (JArr vs) = True"
| "truthy (JObj kvs) = True"

fun join :: "string \<Rightarrow> string list \<Rightarrow> string" where
  "join sep [] = []"
| "join sep [s] = s"
| "join sep (s # t # ss) = s @ sep @ join sep (t # ss)"

text \<open>The results of a list of steps, or the first exception among them.\<close>

fun collect :: "(exn + 'a) list \<Rightarrow> exn + 'a list" where
  "collect [] = Inr []"
| "collect (x # xs) =
     (case x of
        Inl e \<Rightarrow> Inl e
      | Inr a \<Rightarrow> (case collect xs of Inl e \<Rightarrow> Inl e | Inr rest \<Rightarrow> Inr (a # rest)))"

text \<open>
  The string a template literal \<^verbatim>\<open>${v}\<close> inserts for a value. An array is joined
  with commas, \<^verbatim>\<open>null\<close> elements giving the empty string. An object is converted
  by its \<^verbatim>\<open>toString\<close> and then its \<^verbatim>\<open>valueOf\<close>: a parsed object inherits both,
  which gives \<^verbatim>\<open>[object Object]\<close>, unless it has an own \<^verbatim>\<open>toString\<close> property;
  that property is no function, \<^verbatim>\<open>valueOf\<close> returns no primitive either way, and the
  conversion raises \<open>TypeError\<close>.
\<close>

fun to_string :: "platform \<Rightarrow> jsval \<Rightarrow> exn + string" where
  "to_string P JNull = Inr ''null''"
| "to_string P (JBool b) = Inr (if b then ''true'' else ''false'')"
| "to_string P (JNum v) = Inr (Number_toString P v)"
| "to_string P (JStr s) = Inr s"
| "to_string P (JArr vs) =
     (case collect (map (\<lambda>v. if v = JNull then Inr [] else to_string P v) vs) of
        Inl e \<Rightarrow> Inl e
      | Inr parts \<Rightarrow> Inr (join '','' parts))"
| "to_string P (JObj kvs) =
     (case map_of kvs ''toString'' of
        None \<Rightarrow> Inr ''[object Object]''
      | Some member \<Rightarrow> Inl TypeError)"

text \<open>\<^verbatim>\<open>obj[k] = v\<close> on an object kept as its list of own properties.\<close>

fun set_prop :: "string \<Rightarrow> jsval \<Rightarrow> (string \<times> jsval) list \<Rightarrow> (string \<times> jsval) list" where
  "set_prop k v [] = [(k, v)]"
| "set_prop k v ((k', v') # ps) = (if k = k' then (k, v) # ps else (k', v') # set_prop k v ps)"

text \<open>\<^verbatim>\<open>String(n)\<close> for a natural number: its decimal digits.\<close>

definition digit_char :: "nat \<Rightarrow> char" where
  "digit_char k = ''0123456789'' ! k"

function String_nat :: "nat \<Rightarrow> string" where
  "String_nat n =
     (if n < 10 then [digit_char n] else String_nat (n div 10) @ [digit_char (n mod 10)])"
  by pat_completeness auto
termination
  by (relation "measure (\<lambda>n. n)") auto

declare String_nat.simps [simp del]

definition em_dash :: string where
  "em_dash = [CHR 0xE2, CHR 0x80, CHR 0x94]"

subsection \<open>The page\<close>

text \<open>
  What the handlers read and change: the stored journal text, whether \<^verbatim>\<open>setItem\<close>
  throws, the text of \<^verbatim>\<open>#booking-status\<close> (\<open>None\<close> when the element is absent), the
  \<^verbatim>\<open>.site-modal\<close> elements of the body in document order, the \<^verbatim>\<open>keydown\<close>
  listeners on the document (each is the closure \<^verbatim>\<open>esc\<close> of one \<^verbatim>\<open>showModal\<close> call and
  is named by the modal it closes over), and the effects on the user in the order they
  happened.
\<close>

datatype effect =
    Alert string
  | QuickFormReset
  | BookingFormReset
  | ReportValidity
  | Fetch string string
  | ConsoleWarn
  | ConsoleError

record modal =
  modal_id :: nat
  content :: string

record page =
  item :: "string option"
  setItem_throws :: bool
  status :: "string option"
  modals :: "modal list"
  esc_listeners :: "nat list"
  fresh :: nat
  focused :: "nat option"
  effects :: "effect list"

definition set_status :: "string \<Rightarrow> page \<Rightarrow> page" where
  "set_status s pg = (case status pg of None \<Rightarrow> pg | Some old \<Rightarrow> pg\<lparr>status := Some s\<rparr>)"

definition emit :: "effect \<Rightarrow> page \<Rightarrow> page" where
  "emit e pg = pg\<lparr>effects := effects pg @ [e]\<rparr>"

subsection \<open>The booking journal\<close>

text \<open>\<^verbatim>\<open>localStorage.getItem('jyotir_bookings')||'[]'\<close>: an absent key and an empty text
  both give \<^verbatim>\<open>'[]'\<close>.\<close>

definition stored_text :: "string option \<Rightarrow> string" where
  "stored_text it = (case it of None \<Rightarrow> ''[]'' | Some s \<Rightarrow> if s = [] then ''[]'' else s)"

text \<open>
  Lines 64--65, 117 and 130 are the same three steps: parse the stored text, \<^verbatim>\<open>push\<close>
  the record, write the text of the result back. \<^verbatim>\<open>push\<close> exists on arrays only; on
  any other parsed value the call raises \<open>TypeError\<close>.
\<close>

definition journal_append :: "platform \<Rightarrow> jsval \<Rightarrow> page \<Rightarrow> exn + page" where
  "journal_append P data pg =
     (case JSON_parse P (stored_text (item pg)) of
        Inl e \<Rightarrow> Inl e
      | Inr (JArr arr) \<Rightarrow>
          if setItem_throws pg then Inl QuotaExceededError
          else Inr (pg\<lparr>item := Some (JSON_stringify P (JArr (arr @ [data])))\<rparr>)
      | Inr other \<Rightarrow> Inl TypeError)"

text \<open>
  Line 203, \<^verbatim>\<open>bookings.length ? bookings[bookings.length-1] : null\<close>, on each kind of
  parsed value: \<^verbatim>\<open>null\<close> has no properties, booleans and numbers have no \<^verbatim>\<open>length\<close>,
  a string has its last character there (the last \<^typ>\<open>char\<close> of the text, exact for
  ASCII), an object whatever its own \<^verbatim>\<open>length\<close> property leads to.
\<close>

fun last_of :: "platform \<Rightarrow> jsval \<Rightarrow> exn + jsval option" where
  "last_of P JNull = Inl TypeError"
| "last_of P (JBool b) = Inr None"
| "last_of P (JNum v) = Inr None"
| "last_of P (JStr s) = Inr (if s = [] then None else Some (JStr [last s]))"
| "last_of P (JArr arr) = Inr (if arr = [] then None else Some (last arr))"
| "last_of P (JObj kvs) =
     (case map_of kvs ''length'' of
        None \<Rightarrow> Inr None
      | Some n \<Rightarrow>
          if truthy n
          then (case index_before P n of Inl e \<Rightarrow> Inl e | Inr k \<Rightarrow> Inr (map_of kvs k))
          else Inr None)"

text \<open>Lines 202--203: the most recent record, \<open>None\<close> when there is none.\<close>

definition mostRecent :: "platform \<Rightarrow> page \<Rightarrow> exn + jsval option" where
  "mostRecent P pg =
     (case JSON_parse P (stored_text (item pg)) of
        Inl e \<Rightarrow> Inl e
      | Inr bookings \<Rightarrow> last_of P bookings)"

text \<open>\<^verbatim>\<open>last?.name\<close>: only an object can have the property.\<close>

fun get_name :: "jsval option \<Rightarrow> jsval option" where
  "get_name (Some (JObj kvs)) = map_of kvs ''name''"
| "get_name other = None"

subsection \<open>The modal (lines 153--176)\<close>

text \<open>
  \<^verbatim>\<open>showModal\<close> removes the first \<^verbatim>\<open>.site-modal\<close> of the document, appends a new
  one, focuses its close button and adds one \<^verbatim>\<open>keydown\<close> listener to the document.
  The \<^verbatim>\<open>click\<close> listener sits on the new element and goes with it.
\<close>

definition showModal :: "string \<Rightarrow> page \<Rightarrow> page" where
  "showModal html pg =
     (let kept = (case modals pg of [] \<Rightarrow> [] | existing # others \<Rightarrow> others);
          m = \<lparr>modal_id = fresh pg, content = html\<rparr>
      in pg\<lparr>modals := kept @ [m],
            focused := Some (fresh pg),
            esc_listeners := esc_listeners pg @ [fresh pg],
            fresh := fresh pg + 1\<rparr>)"

text \<open>
  The elements a click inside a modal can have as its target: the \<^verbatim>\<open>.site-modal\<close>
  element itself, its child \<^verbatim>\<open>.site-modal__backdrop\<close>, the panel, the close button,
  and anything in the content. Line 173 removes the modal for two of them.
\<close>

datatype click_target = Wrapper | Backdrop | Panel | CloseButton | Content

definition remove_modal :: "nat \<Rightarrow> page \<Rightarrow> page" where
  "remove_modal m pg = pg\<lparr>modals := filter (\<lambda>x. modal_id x \<noteq> m) (modals pg)\<rparr>"

definition modal_click :: "nat \<Rightarrow> click_target \<Rightarrow> page \<Rightarrow> page" where
  "modal_click m target pg =
     (if target = Wrapper \<or> target = CloseButton then remove_modal m pg else pg)"

text \<open>Line 175: the listener \<^verbatim>\<open>esc\<close> of modal \<open>m\<close>, and a key press, which calls
  every listener that was registered when the key went down.\<close>

definition esc :: "string \<Rightarrow> nat \<Rightarrow> page \<Rightarrow> page" where
  "esc key m pg =
     (if key = ''Escape''
      then (remove_modal m pg)\<lparr>esc_listeners := remove1 m (esc_listeners pg)\<rparr>
      else pg)"

definition keydown :: "string \<Rightarrow> page \<Rightarrow> page" where
  "keydown key pg = fold (esc key) (esc_listeners pg) pg"

datatype ui_event = Show string | Click nat click_target | Key string

fun step :: "ui_event \<Rightarrow> page \<Rightarrow> page" where
  "step (Show html) pg = showModal html pg"
| "step (Click m target) pg = modal_click m target pg"
| "step (Key key) pg = keydown key pg"

definition run :: "ui_event list \<Rightarrow> page \<Rightarrow> page" where
  "run evs pg = fold step evs pg"

subsection \<open>Article buttons (lines 141--150)\<close>

definition articles :: "(string \<times> string) list" where
  "articles =
     [(''birth-chart'', ''<h3>What is a Birth Chart?</h3><p>A birth chart maps planetary positions at your birth. Book a consultation for full report.</p>''),
      (''compatibility'', ''<h3>Marriage Compatibility</h3><p>Kundli matching compares moon sign, guna milan and planetary positions.</p>'')]"

text \<open>
  The table is an object literal, so \<^verbatim>\<open>{...}[key]\<close> finds the two own properties
  and, for any other key, what the literal inherits from \<^verbatim>\<open>Object.prototype\<close>. Each
  inherited member is a function or an object, hence truthy, and \<^verbatim>\<open>||\<close> keeps it.
\<close>

definition Object_prototype :: "string list" where
  "Object_prototype =
     [''constructor'', ''hasOwnProperty'', ''isPrototypeOf'', ''propertyIsEnumerable'',
      ''toLocaleString'', ''toString'', ''valueOf'', ''__proto__'',
      ''__defineGetter__'', ''__defineSetter__'', ''__lookupGetter__'', ''__lookupSetter__'']"

definition article_content :: "platform \<Rightarrow> string \<Rightarrow> string" where
  "article_content P key =
     (case map_of articles key of
        Some html \<Rightarrow> html
      | None \<Rightarrow>
          if key \<in> set Object_prototype then native_text P key
          else ''<p>Article not found.</p>'')"

definition article_click :: "platform \<Rightarrow> string \<Rightarrow> page \<Rightarrow> page" where
  "article_click P key pg = showModal (article_content P key) pg"

subsection \<open>The diagram (lines 181--226)\<close>

definition cx :: real where "cx = 180"
definition cy :: real where "cy = 180"
definition r :: real where "r = 140"

text \<open>
  The \<^verbatim>\<open>d\<close> attribute is kept as its list of path commands and the coordinates as
  numbers, where the script formats both into text.
\<close>

datatype path_cmd =
    MoveTo real real
  | LineTo real real
  | ArcTo real real real bool bool real real
  | ClosePath

datatype svg_node =
    PathEl (path_d: "path_cmd list") (path_fill: string) (path_stroke: string)
      (path_data_house: string) (path_cursor: string)
  | TextEl (text_x: real) (text_y: real) (text_fill: string) (text_font_size: string)
      (text_anchor: string) (textContent: string)

definition startAngle :: "nat \<Rightarrow> real" where
  "startAngle i = (real i * 30 - 90) * pi / 180"

definition endAngle :: "nat \<Rightarrow> real" where
  "endAngle i = ((real i + 1) * 30 - 90) * pi / 180"

definition midAngle :: "nat \<Rightarrow> real" where
  "midAngle i = (startAngle i + endAngle i) / 2"

definition sector_path :: "nat \<Rightarrow> svg_node" where
  "sector_path i =
     (let x1 = cx + r * cos (startAngle i); y1 = cy + r * sin (startAngle i);
          x2 = cx + r * cos (endAngle i); y2 = cy + r * sin (endAngle i)
      in PathEl [MoveTo cx cy, LineTo x1 y1, ArcTo r r 0 False True x2 y2, ClosePath]
           (if i mod 2 = 0 then ''#121227'' else ''#0f1020'')
           ''rgba(255,255,255,0.02)''
           (String_nat (i + 1))
           ''pointer'')"

definition sector_label :: "nat \<Rightarrow> svg_node" where
  "sector_label i =
     (let lx = cx + (r - 40) * cos (midAngle i); ly = cy + (r - 40) * sin (midAngle i)
      in TextEl lx ly ''#d3d3e6'' ''12'' ''middle'' (String_nat (i + 1)))"

text \<open>The loop of line 187, with the children of \<^verbatim>\<open>slicesGroup\<close> as the accumulator.\<close>

function slices_loop :: "nat \<Rightarrow> svg_node list \<Rightarrow> svg_node list" where
  "slices_loop i g =
     (if i < 12 then slices_loop (i + 1) (g @ [sector_path i, sector_label i]) else g)"
  by pat_completeness auto
termination
  by (relation "measure (\<lambda>(i, g). 12 - i)") auto

declare slices_loop.simps [simp del]

definition buildKundli :: "svg_node list" where
  "buildKundli = slices_loop 0 []"

definition is_path :: "svg_node \<Rightarrow> bool" where
  "is_path n = (case n of PathEl c f s h p \<Rightarrow> True | TextEl a b f s t c \<Rightarrow> False)"

definition is_text :: "svg_node \<Rightarrow> bool" where
  "is_text n = (\<not> is_path n)"

text \<open>Degrees to radians, for stating the angles the way the specification does.\<close>

definition radians :: "real \<Rightarrow> real" where
  "radians deg = deg * pi / 180"

subsection \<open>Activating a sector (lines 199--206)\<close>

definition getAttribute_data_house :: "svg_node \<Rightarrow> string option" where
  "getAttribute_data_house n =
     (case n of PathEl c f s h p \<Rightarrow> Some h | TextEl a b f s t c \<Rightarrow> None)"

definition house_of :: "svg_node \<Rightarrow> string" where
  "house_of target =
     (case getAttribute_data_house target of
        None \<Rightarrow> ''N/A''
      | Some h \<Rightarrow> if h = [] then ''N/A'' else h)"

definition owner_line :: "platform \<Rightarrow> jsval option \<Rightarrow> exn + string" where
  "owner_line P lst =
     (case get_name lst of
        None \<Rightarrow> Inr []
      | Some n \<Rightarrow>
          if truthy n
          then (case to_string P n of
                  Inl e \<Rightarrow> Inl e
                | Inr shown \<Rightarrow> Inr (''<p><strong>For:</strong> '' @ shown @ ''</p>''))
          else Inr [])"

definition house_html :: "string \<Rightarrow> string \<Rightarrow> string" where
  "house_html house owner =
     ''<h3>House '' @ house @ '' - Short interpretation</h3>'' @ owner @
     ''<p>Short generic interpretation for house '' @ house @ ''. Book for full analysis.</p>''"

definition house_click :: "platform \<Rightarrow> svg_node \<Rightarrow> page \<Rightarrow> exn + page" where
  "house_click P target pg =
     (let house = house_of target
      in case mostRecent P pg of
           Inl e \<Rightarrow> Inl e
         | Inr lst \<Rightarrow>
             (case owner_line P lst of
                Inl e \<Rightarrow> Inl e
              | Inr owner \<Rightarrow> Inr (showModal (house_html house owner) pg)))"

text \<open>
  For stating what opening a modal leaves on the page: the modal that was first on the
  page, if any, is gone, a new one with the given content is last, it has the focus and
  its Escape listener is registered; the storage, the status and the effects are as
  they were.
\<close>

definition opened :: "string \<Rightarrow> page \<Rightarrow> page \<Rightarrow> bool" where
  "opened html pg pg' \<longleftrightarrow>
     modals pg' = tl (modals pg) @ [\<lparr>modal_id = fresh pg, content = html\<rparr>] \<and>
     focused pg' = Some (fresh pg) \<and>
     esc_listeners pg' = esc_listeners pg @ [fresh pg] \<and>
     item pg' = item pg \<and> setItem_throws pg' = setItem_throws pg \<and>
     status pg' = status pg \<and> effects pg' = effects pg"

subsection \<open>Quick booking (lines 57--68)\<close>

text \<open>The values of \<^verbatim>\<open>#qname\<close>, \<^verbatim>\<open>#qemail\<close> and \<^verbatim>\<open>#qdob\<close>; \<open>None\<close> for an element
  the page does not have.\<close>

record quick_form =
  qname :: "string option"
  qemail :: "string option"
  qdob :: "string option"

definition filled :: "string option \<Rightarrow> bool" where
  "filled v = (case v of None \<Rightarrow> False | Some s \<Rightarrow> s \<noteq> [])"

definition str_of :: "string option \<Rightarrow> string" where
  "str_of v = (case v of None \<Rightarrow> [] | Some s \<Rightarrow> s)"

definition quick_submit :: "platform \<Rightarrow> string \<Rightarrow> quick_form \<Rightarrow> page \<Rightarrow> exn + page" where
  "quick_submit P now f pg =
     (let name = map_option (String_trim P) (qname f);
          email = map_option (String_trim P) (qemail f);
          dob = qdob f
      in if \<not> filled name \<or> \<not> filled email \<or> \<not> filled dob
         then Inr (emit (Alert ''Please fill all quick booking fields.'') pg)
         else
           let data = JObj [(''name'', JStr (str_of name)), (''email'', JStr (str_of email)),
                            (''dob'', JStr (str_of dob)), (''created'', JStr now)]
           in case journal_append P data pg of
                Inl e \<Rightarrow> Inl e
              | Inr pg' \<Rightarrow>
                  Inr (emit QuickFormReset
                        (emit (Alert ''Quick request received. We will contact you soon.'') pg')))"

subsection \<open>Full booking (lines 75--137)\<close>

text \<open>
  What the handler reads from the form: the result of \<^verbatim>\<open>checkValidity()\<close>, the value
  of the \<^verbatim>\<open>.hp\<close> element if there is one, the entries of its \<^verbatim>\<open>FormData\<close> and the
  \<^verbatim>\<open>data-endpoint\<close> attribute. What the network does with the request is \<open>net_result\<close>:
  a response with \<^verbatim>\<open>ok\<close> and its body as JSON if it parses, a response with another
  status, the abort after 15 seconds, or a rejected \<^verbatim>\<open>fetch\<close>.
\<close>

record booking_form =
  valid :: bool
  hp :: "string option"
  entries :: "(string \<times> string) list"
  endpoint :: "string option"

datatype net_result = HttpOk "jsval option" | HttpError nat | TimedOut | NetworkError

text \<open>
  Line 93, \<^verbatim>\<open>fd.forEach((v,k) => obj[k]=v)\<close>, on the empty object literal. An entry
  named \<^verbatim>\<open>__proto__\<close> goes to the inherited setter, which ignores a string.
\<close>

definition form_object :: "(string \<times> string) list \<Rightarrow> (string \<times> jsval) list" where
  "form_object es =
     fold (\<lambda>(k, v) obj. if k = ''__proto__'' then obj else set_prop k (JStr v) obj) es []"

definition web_endpoint :: "string option \<Rightarrow> bool" where
  "web_endpoint ep = (case ep of None \<Rightarrow> False | Some u \<Rightarrow> take 4 u = ''http'')"

text \<open>Lines 129--136.\<close>

definition local_save :: "platform \<Rightarrow> string \<Rightarrow> (string \<times> jsval) list \<Rightarrow> page \<Rightarrow> page" where
  "local_save P now obj pg =
     (case journal_append P (JObj (set_prop ''fallbackSavedAt'' (JStr now) obj)) pg of
        Inr pg' \<Rightarrow>
          emit BookingFormReset
            (set_status ''Saved locally. You will receive confirmation after manual review.'' pg')
      | Inl e \<Rightarrow>
          set_status ''Failed to save booking. Please try again later or contact via WhatsApp.''
            (emit ConsoleError pg))"

text \<open>Lines 119--123.\<close>

definition network_failed :: "page \<Rightarrow> page" where
  "network_failed pg =
     set_status (''Network issue '' @ em_dash @ '' booking saved locally. We will retry later.'')
       (emit ConsoleWarn pg)"

text \<open>
  The handler is asynchronous. It runs up to \<^verbatim>\<open>await fetch(...)\<close> (lines 76--109),
  where it either has finished or waits for the request with the collected fields in
  hand, and it resumes when the request settles (lines 110--136).
\<close>

datatype in_flight = Settled page | Awaiting "(string \<times> jsval) list" page

definition booking_start :: "platform \<Rightarrow> string \<Rightarrow> booking_form \<Rightarrow> page \<Rightarrow> in_flight" where
  "booking_start P now f pg =
     (if \<not> valid f then Settled (emit ReportValidity pg)
      else if filled (hp f) then Settled pg
      else
        let obj = form_object (entries f);
            pg1 = set_status ''Submitting...'' pg
        in if web_endpoint (endpoint f)
           then Awaiting obj
                  (emit (Fetch (str_of (endpoint f)) (JSON_stringify P (JObj obj))) pg1)
           else
             Settled (local_save P now obj
               (set_status (''No server endpoint configured '' @ em_dash @ '' saving locally.'')
                  pg1)))"

definition booking_resume ::
  "platform \<Rightarrow> string \<Rightarrow> net_result \<Rightarrow> (string \<times> jsval) list \<Rightarrow> page \<Rightarrow> page" where
  "booking_resume P now net obj pg2 =
     (case net of
        HttpOk body \<Rightarrow>
          let json = (case body of None \<Rightarrow> JNull | Some j \<Rightarrow> j);
              pg3 = emit BookingFormReset
                      (set_status ''Booking confirmed. We will email you shortly.'' pg2)
          in (case journal_append P
                     (JObj (set_prop ''submittedAt'' (JStr now)
                        (set_prop ''serverResponse'' json obj))) pg3 of
                Inr pg4 \<Rightarrow> pg4
              | Inl e \<Rightarrow> local_save P now obj (network_failed pg3))
      | HttpError code \<Rightarrow> local_save P now obj (network_failed pg2)
      | TimedOut \<Rightarrow> local_save P now obj (network_failed pg2)
      | NetworkError \<Rightarrow> local_save P now obj (network_failed pg2))"

text \<open>The whole handler, when no other handler runs while the request is in flight.\<close>

definition booking_submit ::
  "platform \<Rightarrow> string \<Rightarrow> net_result \<Rightarrow> booking_form \<Rightarrow> page \<Rightarrow> page" where
  "booking_submit P now net f pg =
     (case booking_start P now f pg of
        Settled pg' \<Rightarrow> pg'
      | Awaiting obj pg2 \<Rightarrow> booking_resume P now net obj pg2)"

subsection \<open>A platform and a page for running the handlers\<close>

text \<open>
  The theorems below hold for every platform. To run a handler on a concrete page one
  platform is fixed here: it trims the ASCII white space and line terminators, prints
  values the way \<^verbatim>\<open>JSON.stringify\<close> does for integers and for strings that need no
  escape, and parses the texts that the examples store: \<^verbatim>\<open>[]\<close>, \<^verbatim>\<open>null\<close>,
  \<^verbatim>\<open>5\<close>, \<^verbatim>\<open>true\<close>, \<^verbatim>\<open>{}\<close>, the texts of \<open>sample_journal\<close> and of
  \<open>odd_journal\<close> (one record whose name is an object with a \<^verbatim>\<open>toString\<close> key),
  and \<^verbatim>\<open>{oops\<close>, which is not JSON. \<open>page0\<close> is the page right after the script has
  run.
\<close>

definition js_space :: "char \<Rightarrow> bool" where
  "js_space c \<longleftrightarrow> c \<in> set [CHR 0x09, CHR 0x0A, CHR 0x0B, CHR 0x0C, CHR 0x0D, CHR 0x20]"

definition sample_trim :: "string \<Rightarrow> string" where
  "sample_trim s = rev (dropWhile js_space (rev (dropWhile js_space s)))"

definition quoted :: "string \<Rightarrow> string" where
  "quoted s = CHR 0x22 # s @ [CHR 0x22]"

definition sample_Number_toString :: "real \<Rightarrow> string" where
  "sample_Number_toString v =
     (if v < 0 then ''-'' @ String_nat (nat \<lfloor>- v\<rfloor>) else String_nat (nat \<lfloor>v\<rfloor>))"

fun sample_stringify :: "jsval \<Rightarrow> string" where
  "sample_stringify JNull = ''null''"
| "sample_stringify (JBool b) = (if b then ''true'' else ''false'')"
| "sample_stringify (JNum v) = sample_Number_toString v"
| "sample_stringify (JStr s) = quoted s"
| "sample_stringify (JArr vs) = ''['' @ join '','' (map sample_stringify vs) @ '']''"
| "sample_stringify (JObj kvs) =
     ''{'' @ join '','' (map (\<lambda>kv. quoted (fst kv) @ '':'' @ sample_stringify (snd kv)) kvs) @ ''}''"

definition sample_journal :: jsval where
  "sample_journal =
     JArr [JObj [(''name'', JStr ''Asha''), (''email'', JStr ''a@x.com''),
                 (''dob'', JStr ''1990-01-01''), (''created'', JStr ''T1'')]]"

definition odd_journal :: jsval where
  "odd_journal = JArr [JObj [(''name'', JObj [(''toString'', JNum 1)])]]"

definition sample_parse :: "string \<Rightarrow> exn + jsval" where
  "sample_parse s =
     (if s = ''[]'' then Inr (JArr [])
      else if s = sample_stringify sample_journal then Inr sample_journal
      else if s = ''null'' then Inr JNull
      else if s = ''5'' then Inr (JNum 5)
      else if s = ''true'' then Inr (JBool True)
      else if s = ''{}'' then Inr (JObj [])
      else if s = sample_stringify odd_journal then Inr odd_journal
      else Inl SyntaxError)"

definition sample_index_before :: "jsval \<Rightarrow> exn + string" where
  "sample_index_before v =
     (case v of
        JNum n \<Rightarrow> Inr (sample_Number_toString (n - 1))
      | JBool b \<Rightarrow> Inr ''0''
      | other \<Rightarrow> Inr ''NaN'')"

definition sample_native_text :: "string \<Rightarrow> string" where
  "sample_native_text k =
     (if k = ''__proto__'' then ''[object Object]''
      else ''function '' @ (if k = ''constructor'' then ''Object'' else k) @ ''() { [native code] }'')"

definition sample_platform :: platform where
  "sample_platform =
     \<lparr>JSON_parse = sample_parse, JSON_stringify = sample_stringify,
      String_trim = sample_trim, Number_toString = sample_Number_toString,
      index_before = sample_index_before, native_text = sample_native_text\<rparr>"

definition page0 :: page where
  "page0 =
     \<lparr>item = None, setItem_throws = False, status = Some [], modals = [],
      esc_listeners = [], fresh = 0, focused = None, effects = []\<rparr>"

definition sample_booking :: booking_form where
  "sample_booking =
     \<lparr>valid = True, hp = None,
      entries = [(''name'', ''Asha''), (''email'', ''a@x.com''), (''website'', [])],
      endpoint = Some ''https://example.org/book''\<rparr>"

section \<open>The diagram\<close>

subsection \<open>What the loop builds\<close>

lemma slices_loop_unfold:
  "i \<le> 12 \<Longrightarrow>
   slices_loop i g = g @ concat (map (\<lambda>k. [sector_path k, sector_label k]) [i..<12])"
proof (induction i g rule: slices_loop.induct)
  case (1 i g)
  show ?case
  proof (cases "i < 12")
    case True
    then have "slices_loop i g = slices_loop (i + 1) (g @ [sector_path i, sector_label i])"
      by (simp add: slices_loop.simps [of i g])
    also have "\<dots> = (g @ [sector_path i, sector_label i]) @
        concat (map (\<lambda>k. [sector_path k, sector_label k]) [i + 1..<12])"
      using True by (intro "1.IH") simp_all
    also have "\<dots> = g @ concat (map (\<lambda>k. [sector_path k, sector_label k]) [i..<12])"
      using True by (simp add: upt_conv_Cons)
    finally show ?thesis .
  next
    case False
    with "1.prems" have "i = 12" by simp
    then show ?thesis by (subst slices_loop.simps) simp
  qed
qed

lemma buildKundli_eq:
  "buildKundli = concat (map (\<lambda>k. [sector_path k, sector_label k]) [0..<12])"
  by (simp add: buildKundli_def slices_loop_unfold)

lemma is_path_sector [simp]: "is_path (sector_path k)" "\<not> is_path (sector_label k)"
  by (simp_all add: is_path_def sector_path_def sector_label_def Let_def)

lemma filter_paths:
  "filter is_path (concat (map (\<lambda>k. [sector_path k, sector_label k]) ks)) = map sector_path ks"
  by (induction ks) simp_all

lemma filter_labels:
  "filter is_text (concat (map (\<lambda>k. [sector_path k, sector_label k]) ks)) = map sector_label ks"
  by (induction ks) (simp_all add: is_text_def)

lemma paths_of_kundli: "filter is_path buildKundli = map sector_path [0..<12]"
  by (simp only: buildKundli_eq filter_paths)

lemma labels_of_kundli: "filter is_text buildKundli = map sector_label [0..<12]"
  by (simp only: buildKundli_eq filter_labels)

lemma kundli_path_nth: "i < 12 \<Longrightarrow> filter is_path buildKundli ! i = sector_path i"
  by (simp add: paths_of_kundli)

lemma kundli_label_nth: "i < 12 \<Longrightarrow> filter is_text buildKundli ! i = sector_label i"
  by (simp add: labels_of_kundli)

subsection \<open>Angles\<close>

lemma startAngle_deg: "startAngle i = radians (real i * 30 - 90)"
  by (simp add: startAngle_def radians_def)

lemma endAngle_deg: "endAngle i = radians ((real i * 30 - 90) + 30)"
  by (simp add: endAngle_def radians_def algebra_simps)

lemma midAngle_deg: "midAngle i = radians ((real i * 30 - 90) + 15)"
  by (simp add: midAngle_def startAngle_def endAngle_def radians_def field_simps)

lemma endAngle_next: "endAngle i = startAngle (i + 1)"
  by (simp add: endAngle_def startAngle_def)

lemma full_turn: "endAngle 11 = startAngle 0 + radians 360"
  by (simp add: endAngle_def startAngle_def radians_def field_simps)

lemma start_le_iff: "startAngle i \<le> \<theta> \<longleftrightarrow> real i \<le> (\<theta> * 180 / pi + 90) / 30"
proof -
  have "startAngle i \<le> \<theta> \<longleftrightarrow> (real i * 30 - 90) * pi \<le> \<theta> * 180"
    by (simp add: startAngle_def field_simps)
  also have "\<dots> \<longleftrightarrow> real i * 30 - 90 \<le> \<theta> * 180 / pi"
    using pi_gt_zero by (simp add: pos_le_divide_eq)
  also have "\<dots> \<longleftrightarrow> real i \<le> (\<theta> * 180 / pi + 90) / 30"
    by (simp add: field_simps)
  finally show ?thesis .
qed

lemma less_end_iff: "\<theta> < endAngle i \<longleftrightarrow> (\<theta> * 180 / pi + 90) / 30 < real i + 1"
proof -
  have "\<theta> < endAngle i \<longleftrightarrow> \<theta> * 180 < ((real i + 1) * 30 - 90) * pi"
    by (simp add: endAngle_def field_simps)
  also have "\<dots> \<longleftrightarrow> \<theta> * 180 / pi < (real i + 1) * 30 - 90"
    using pi_gt_zero by (simp add: pos_divide_less_eq)
  also have "\<dots> \<longleftrightarrow> (\<theta> * 180 / pi + 90) / 30 < real i + 1"
    by (simp add: field_simps)
  finally show ?thesis .
qed

text \<open>Every angle of the turn that starts at the top lies in one sector and in one only.\<close>

lemma sector_of_angle:
  assumes lo: "startAngle 0 \<le> \<theta>" and hi: "\<theta> < startAngle 0 + radians 360"
  shows "\<exists>!i. i < 12 \<and> startAngle i \<le> \<theta> \<and> \<theta> < endAngle i"
proof -
  define q where "q = (\<theta> * 180 / pi + 90) / 30"
  from lo have q0: "0 \<le> q"
    using start_le_iff [of 0 \<theta>] by (simp add: q_def)
  from hi have "\<theta> < endAngle 11" by (simp add: full_turn)
  then have q12: "q < 12"
    using less_end_iff [of \<theta> 11] by (simp add: q_def)
  define k where "k = nat \<lfloor>q\<rfloor>"
  have kq: "real k \<le> q" "q < real k + 1"
    using q0 by (simp_all add: k_def)
  have "k < 12" using kq(1) q12 by linarith
  have ex: "k < 12 \<and> startAngle k \<le> \<theta> \<and> \<theta> < endAngle k"
    using \<open>k < 12\<close> kq by (simp add: start_le_iff less_end_iff q_def)
  have "i = k" if "i < 12 \<and> startAngle i \<le> \<theta> \<and> \<theta> < endAngle i" for i
  proof -
    from that have "real i \<le> q" "q < real i + 1"
      by (simp_all add: start_le_iff less_end_iff q_def)
    with kq show ?thesis by linarith
  qed
  with ex show ?thesis by blast
qed

lemma sector_path_d:
  "path_d (sector_path i) =
     [MoveTo cx cy,
      LineTo (cx + r * cos (startAngle i)) (cy + r * sin (startAngle i)),
      ArcTo r r 0 False True (cx + r * cos (endAngle i)) (cy + r * sin (endAngle i)),
      ClosePath]"
  by (simp add: sector_path_def Let_def)

lemma label_radius:
  "(text_x (sector_label i) - cx)\<^sup>2 + (text_y (sector_label i) - cy)\<^sup>2 = (r - 40)\<^sup>2"
proof -
  have "((r - 40) * cos (midAngle i))\<^sup>2 + ((r - 40) * sin (midAngle i))\<^sup>2
      = (r - 40)\<^sup>2 * ((cos (midAngle i))\<^sup>2 + (sin (midAngle i))\<^sup>2)"
    by (simp only: power_mult_distrib distrib_left)
  also have "\<dots> = (r - 40)\<^sup>2"
    by (simp only: sin_cos_squared_add2 mult_1_right)
  finally show ?thesis by (simp add: sector_label_def Let_def)
qed

lemma label_texts:
  "map (\<lambda>i. (i, String_nat (i + 1))) [0..<12] =
     [(0, ''1''), (1, ''2''), (2, ''3''), (3, ''4''), (4, ''5''), (5, ''6''),
      (6, ''7''), (7, ''8''), (8, ''9''), (9, ''10''), (10, ''11''), (11, ''12'')]"
  by code_simp

text \<open>
  C1. The generator appends exactly twelve sector paths. Sector \<open>i\<close> (counted from 0) is
  the wedge that moves to the centre, draws a line to the point of the circle at
  \<open>i * 30 - 90\<close> degrees and an arc of radius \<open>r\<close> with sweep flag 1 (clockwise on the
  screen) to the point at 30 degrees more, and closes. Each sector ends where the next
  starts, the last ends one full turn after the first starts, and every angle of that
  turn lies in exactly one sector.
\<close>

theorem kundli_sectors:
  "length (filter is_path buildKundli) = 12 \<and>
   (\<forall>i<12.
      path_d (filter is_path buildKundli ! i) =
        [MoveTo cx cy,
         LineTo (cx + r * cos (radians (real i * 30 - 90)))
                (cy + r * sin (radians (real i * 30 - 90))),
         ArcTo r r 0 False True
                (cx + r * cos (radians ((real i * 30 - 90) + 30)))
                (cy + r * sin (radians ((real i * 30 - 90) + 30))),
         ClosePath] \<and>
      startAngle i = radians (real i * 30 - 90) \<and>
      endAngle i = radians ((real i * 30 - 90) + 30) \<and>
      (i < 11 \<longrightarrow> endAngle i = startAngle (i + 1))) \<and>
   endAngle 11 = startAngle 0 + radians 360 \<and>
   (\<forall>\<theta>. startAngle 0 \<le> \<theta> \<and> \<theta> < startAngle 0 + radians 360 \<longrightarrow>
      (\<exists>!i. i < 12 \<and> startAngle i \<le> \<theta> \<and> \<theta> < endAngle i))"
proof (intro conjI allI impI)
  show "length (filter is_path buildKundli) = 12"
    by (simp add: paths_of_kundli)
next
  fix i :: nat
  assume "i < 12"
  then show "path_d (filter is_path buildKundli ! i) =
        [MoveTo cx cy,
         LineTo (cx + r * cos (radians (real i * 30 - 90)))
                (cy + r * sin (radians (real i * 30 - 90))),
         ArcTo r r 0 False True
                (cx + r * cos (radians ((real i * 30 - 90) + 30)))
                (cy + r * sin (radians ((real i * 30 - 90) + 30))),
         ClosePath]"
    by (simp only: kundli_path_nth sector_path_d startAngle_deg endAngle_deg)
next
  fix i :: nat
  show "startAngle i = radians (real i * 30 - 90)" by (rule startAngle_deg)
  show "endAngle i = radians ((real i * 30 - 90) + 30)" by (rule endAngle_deg)
  show "endAngle i = startAngle (i + 1)" by (rule endAngle_next)
next
  show "endAngle 11 = startAngle 0 + radians 360" by (rule full_turn)
next
  fix \<theta> :: real
  assume "startAngle 0 \<le> \<theta> \<and> \<theta> < startAngle 0 + radians 360"
  then show "\<exists>!i. i < 12 \<and> startAngle i \<le> \<theta> \<and> \<theta> < endAngle i"
    by (intro sector_of_angle) simp_all
qed

theorem kundli_sectors_witness:
  "(4::nat) < 12 \<and>
   path_d (filter is_path buildKundli ! 4) =
     [MoveTo 180 180,
      LineTo (180 + 140 * cos (radians 30)) (180 + 140 * sin (radians 30)),
      ArcTo 140 140 0 False True (180 + 140 * cos (radians 60)) (180 + 140 * sin (radians 60)),
      ClosePath] \<and>
   startAngle 0 \<le> 0 \<and> 0 < startAngle 0 + radians 360 \<and>
   (\<exists>!i. i < 12 \<and> startAngle i \<le> 0 \<and> 0 < endAngle i)"
proof -
  have bounds: "startAngle 0 \<le> 0 \<and> 0 < startAngle 0 + radians 360"
    by (simp add: startAngle_def radians_def)
  have "path_d (filter is_path buildKundli ! 4) =
     [MoveTo cx cy,
      LineTo (cx + r * cos (radians (real 4 * 30 - 90))) (cy + r * sin (radians (real 4 * 30 - 90))),
      ArcTo r r 0 False True
        (cx + r * cos (radians ((real 4 * 30 - 90) + 30)))
        (cy + r * sin (radians ((real 4 * 30 - 90) + 30))),
      ClosePath]"
    using kundli_sectors by simp
  moreover have "\<exists>!i. i < 12 \<and> startAngle i \<le> 0 \<and> 0 < endAngle i"
    using kundli_sectors bounds by blast
  ultimately show ?thesis
    using bounds by (simp add: cx_def cy_def r_def)
qed

text \<open>
  C5. The label of sector \<open>i\<close> (counted from 0) has the text of \<open>i + 1\<close>, is anchored at
  its middle, and sits at the angle halfway between the sector's start and end, which is
  \<open>i * 30 - 90 + 15\<close> degrees, at distance \<open>r - 40\<close> from the centre. The twelve
  labels read 1 to 12 in the order of the sectors, so the last sector's label is 12.
\<close>

theorem kundli_labels_placed:
  "(\<forall>i<12.
      textContent (filter is_text buildKundli ! i) = String_nat (i + 1) \<and>
      text_anchor (filter is_text buildKundli ! i) = ''middle'' \<and>
      text_x (filter is_text buildKundli ! i) = cx + (r - 40) * cos ((startAngle i + endAngle i) / 2) \<and>
      text_y (filter is_text buildKundli ! i) = cy + (r - 40) * sin ((startAngle i + endAngle i) / 2) \<and>
      (startAngle i + endAngle i) / 2 = radians ((real i * 30 - 90) + 15) \<and>
      (text_x (filter is_text buildKundli ! i) - cx)\<^sup>2 +
        (text_y (filter is_text buildKundli ! i) - cy)\<^sup>2 = (r - 40)\<^sup>2) \<and>
   map (\<lambda>i. (i, textContent (filter is_text buildKundli ! i))) [0..<12] =
     [(0, ''1''), (1, ''2''), (2, ''3''), (3, ''4''), (4, ''5''), (5, ''6''),
      (6, ''7''), (7, ''8''), (8, ''9''), (9, ''10''), (10, ''11''), (11, ''12'')] \<and>
   textContent (filter is_text buildKundli ! 11) = ''12''"
proof (intro conjI allI impI)
  fix i :: nat
  assume i: "i < 12"
  have lbl: "filter is_text buildKundli ! i = sector_label i"
    using i by (rule kundli_label_nth)
  show "textContent (filter is_text buildKundli ! i) = String_nat (i + 1)"
    by (simp add: lbl sector_label_def Let_def)
  show "text_anchor (filter is_text buildKundli ! i) = ''middle''"
    by (simp add: lbl sector_label_def Let_def)
  show "text_x (filter is_text buildKundli ! i) =
      cx + (r - 40) * cos ((startAngle i + endAngle i) / 2)"
    by (simp add: lbl sector_label_def Let_def midAngle_def)
  show "text_y (filter is_text buildKundli ! i) =
      cy + (r - 40) * sin ((startAngle i + endAngle i) / 2)"
    by (simp add: lbl sector_label_def Let_def midAngle_def)
  show "(startAngle i + endAngle i) / 2 = radians ((real i * 30 - 90) + 15)"
    using midAngle_deg [of i] by (simp only: midAngle_def)
  show "(text_x (filter is_text buildKundli ! i) - cx)\<^sup>2 +
        (text_y (filter is_text buildKundli ! i) - cy)\<^sup>2 = (r - 40)\<^sup>2"
    by (simp only: lbl label_radius)
next
  have texts: "map (\<lambda>i. (i, textContent (filter is_text buildKundli ! i))) [0..<12] =
      map (\<lambda>i. (i, String_nat (i + 1))) [0..<12]"
    by (rule map_cong) (simp_all add: kundli_label_nth sector_label_def Let_def)
  show "map (\<lambda>i. (i, textContent (filter is_text buildKundli ! i))) [0..<12] =
     [(0, ''1''), (1, ''2''), (2, ''3''), (3, ''4''), (4, ''5''), (5, ''6''),
      (6, ''7''), (7, ''8''), (8, ''9''), (9, ''10''), (10, ''11''), (11, ''12'')]"
    by (simp only: texts label_texts)
  have "textContent (filter is_text buildKundli ! 11) = String_nat (11 + 1)"
    by (simp add: kundli_label_nth sector_label_def Let_def)
  also have "\<dots> = ''12''" by code_simp
  finally show "textContent (filter is_text buildKundli ! 11) = ''12''" .
qed

theorem kundli_labels_placed_witness:
  "(11::nat) < 12 \<and>
   textContent (filter is_text buildKundli ! 11) = ''12'' \<and>
   text_anchor (filter is_text buildKundli ! 11) = ''middle'' \<and>
   text_x (filter is_text buildKundli ! 11) = 180 + 100 * cos (radians 255) \<and>
   text_y (filter is_text buildKundli ! 11) = 180 + 100 * sin (radians 255) \<and>
   (text_x (filter is_text buildKundli ! 11) - 180)\<^sup>2 +
     (text_y (filter is_text buildKundli ! 11) - 180)\<^sup>2 = 100\<^sup>2"
proof -
  have lt: "(11::nat) < 12" by simp
  have mid: "(startAngle 11 + endAngle 11) / 2 = radians 255"
    using kundli_labels_placed lt by simp
  have tx: "text_x (filter is_text buildKundli ! 11) =
      cx + (r - 40) * cos ((startAngle 11 + endAngle 11) / 2)"
    using kundli_labels_placed lt by blast
  have ty: "text_y (filter is_text buildKundli ! 11) =
      cy + (r - 40) * sin ((startAngle 11 + endAngle 11) / 2)"
    using kundli_labels_placed lt by blast
  have anchor: "text_anchor (filter is_text buildKundli ! 11) = ''middle''"
    using kundli_labels_placed lt by blast
  have label12: "textContent (filter is_text buildKundli ! 11) = ''12''"
    using kundli_labels_placed by blast
  have rad: "(text_x (filter is_text buildKundli ! 11) - cx)\<^sup>2 +
        (text_y (filter is_text buildKundli ! 11) - cy)\<^sup>2 = (r - 40)\<^sup>2"
    using kundli_labels_placed lt by blast
  have "text_x (filter is_text buildKundli ! 11) = 180 + 100 * cos (radians 255)"
    by (simp add: tx mid cx_def r_def)
  moreover have "text_y (filter is_text buildKundli ! 11) = 180 + 100 * sin (radians 255)"
    by (simp add: ty mid cy_def r_def)
  moreover have "(text_x (filter is_text buildKundli ! 11) - 180)\<^sup>2 +
     (text_y (filter is_text buildKundli ! 11) - 180)\<^sup>2 = 100\<^sup>2"
    using rad by (simp only: cx_def cy_def r_def) simp
  ultimately show ?thesis
    using lt anchor label12 by blast
qed

section \<open>The modal\<close>

text \<open>No sequence of openings, clicks and key presses leaves two overlays on the page.\<close>

lemma showModal_modals_le: "length (modals pg) \<le> 1 \<Longrightarrow> length (modals (showModal html pg)) = 1"
  by (cases "modals pg") (simp_all add: showModal_def Let_def)

lemma remove_modal_le: "length (modals (remove_modal m pg)) \<le> length (modals pg)"
  by (simp add: remove_modal_def)

lemma esc_le: "length (modals (esc key m pg)) \<le> length (modals pg)"
  by (simp add: esc_def remove_modal_def)

lemma fold_esc_le: "length (modals (fold (esc key) ms pg)) \<le> length (modals pg)"
proof (induction ms arbitrary: pg)
  case Nil
  then show ?case by simp
next
  case (Cons m ms)
  have "length (modals (fold (esc key) ms (esc key m pg))) \<le> length (modals (esc key m pg))"
    by (rule Cons.IH)
  also have "\<dots> \<le> length (modals pg)" by (rule esc_le)
  finally show ?case by simp
qed

lemma step_modals_le: "length (modals pg) \<le> 1 \<Longrightarrow> length (modals (step ev pg)) \<le> 1"
proof (cases ev)
  case (Show html)
  assume "length (modals pg) \<le> 1"
  then show ?thesis using Show by (simp add: showModal_modals_le)
next
  case (Click m target)
  assume "length (modals pg) \<le> 1"
  moreover have "length (modals (modal_click m target pg)) \<le> length (modals pg)"
    by (simp add: modal_click_def remove_modal_def)
  ultimately show ?thesis using Click by simp
next
  case (Key key)
  assume "length (modals pg) \<le> 1"
  moreover have "length (modals (keydown key pg)) \<le> length (modals pg)"
    unfolding keydown_def by (rule fold_esc_le)
  ultimately show ?thesis using Key by simp
qed

lemma at_most_one_modal:
  "length (modals pg) \<le> 1 \<Longrightarrow> length (modals (run evs pg)) \<le> 1"
  unfolding run_def
proof (induction evs arbitrary: pg)
  case Nil
  then show ?case by simp
next
  case (Cons ev evs)
  from Cons.prems have "length (modals (step ev pg)) \<le> 1" by (rule step_modals_le)
  then have "length (modals (fold step evs (step ev pg))) \<le> 1" by (rule Cons.IH)
  then show ?case by simp
qed

text \<open>The click targets that dismiss a modal are its outer element and its close button.\<close>

lemma click_dismisses:
  "modals (modal_click m target (showModal html page0)) =
     (if m = 0 \<and> (target = Wrapper \<or> target = CloseButton) then []
      else modals (showModal html page0))"
  by (simp add: modal_click_def remove_modal_def showModal_def page0_def Let_def)

text \<open>
  C4. The claim holds for the overlays (\<open>at_most_one_modal\<close>) and fails for the
  listeners. A listener is removed in one place only, inside the listener itself when
  Escape is pressed: a click removes no listener, and \<^verbatim>\<open>showModal\<close> adds one and
  removes none. So after a modal is opened and closed with its close button its listener
  is still registered although no modal is present, and opening a second modal leaves
  two listeners; opening a second modal over the first leaves two as well.
\<close>

theorem esc_listeners_accumulate:
  "esc_listeners (modal_click m target pg) = esc_listeners pg \<and>
   esc_listeners (showModal html pg) = esc_listeners pg @ [fresh pg] \<and>
   modals (run [Show ''a'', Click 0 CloseButton] page0) = [] \<and>
   esc_listeners (run [Show ''a'', Click 0 CloseButton] page0) = [0] \<and>
   map modal_id (modals (run [Show ''a'', Click 0 CloseButton, Show ''b''] page0)) = [1] \<and>
   esc_listeners (run [Show ''a'', Click 0 CloseButton, Show ''b''] page0) = [0, 1] \<and>
   map modal_id (modals (run [Show ''a'', Show ''b''] page0)) = [1] \<and>
   esc_listeners (run [Show ''a'', Show ''b''] page0) = [0, 1]"
  by (simp add: run_def page0_def showModal_def modal_click_def remove_modal_def Let_def)

text \<open>One press of Escape then calls both listeners, and each removes itself.\<close>

lemma escape_clears:
  "esc_listeners (run [Show ''a'', Click 0 CloseButton, Show ''b'', Key ''Escape''] page0) = [] \<and>
   modals (run [Show ''a'', Click 0 CloseButton, Show ''b'', Key ''Escape''] page0) = []"
  by (simp add: run_def page0_def showModal_def modal_click_def remove_modal_def Let_def
      keydown_def esc_def)

section \<open>Article buttons\<close>

lemma article_known:
  "article_content P ''birth-chart'' = ''<h3>What is a Birth Chart?</h3><p>A birth chart maps planetary positions at your birth. Book a consultation for full report.</p>''"
  by (simp add: article_content_def articles_def)

lemma article_unknown_key:
  assumes "key \<noteq> ''birth-chart''" "key \<noteq> ''compatibility''" "key \<notin> set Object_prototype"
  shows "article_content P key = ''<p>Article not found.</p>''"
  using assms by (simp add: article_content_def articles_def)

lemma article_inherited:
  "key \<in> set Object_prototype \<Longrightarrow> article_content P key = native_text P key"
  by (auto simp add: article_content_def articles_def Object_prototype_def)

lemma article_click_one_modal:
  "length (modals pg) \<le> 1 \<Longrightarrow>
   map content (modals (article_click P key pg)) = [article_content P key]"
  by (cases "modals pg") (simp_all add: article_click_def showModal_def Let_def)

text \<open>
  C10. The key \<^verbatim>\<open>constructor\<close> is not one of the two known keys, yet for it the
  table lookup finds the member the object literal inherits, and the one modal that
  opens shows that member's text, on every platform; on the sample platform it is the
  text of the function \<^verbatim>\<open>Object\<close>, not the fallback. For a key that is neither known
  nor inherited the fallback is shown (\<open>article_unknown_key\<close>).
\<close>

theorem article_inherited_key:
  "''constructor'' \<noteq> ''birth-chart'' \<and> ''constructor'' \<noteq> ''compatibility'' \<and>
   article_content P ''constructor'' = native_text P ''constructor'' \<and>
   map content (modals (article_click P ''constructor'' page0)) = [native_text P ''constructor''] \<and>
   map content (modals (article_click sample_platform ''constructor'' page0)) =
     [''function Object() { [native code] }''] \<and>
   article_content sample_platform ''constructor'' \<noteq> ''<p>Article not found.</p>''"
  by (simp add: article_content_def articles_def Object_prototype_def article_click_def
      showModal_def Let_def page0_def sample_platform_def sample_native_text_def)

section \<open>The journal and the forms\<close>

subsection \<open>Facts about the parts\<close>

lemma set_status_fields [simp]:
  "item (set_status s pg) = item pg"
  "setItem_throws (set_status s pg) = setItem_throws pg"
  "effects (set_status s pg) = effects pg"
  "modals (set_status s pg) = modals pg"
  "esc_listeners (set_status s pg) = esc_listeners pg"
  "status (set_status s pg) = (case status pg of None \<Rightarrow> None | Some old \<Rightarrow> Some s)"
  by (simp_all add: set_status_def split: option.splits)

lemma emit_fields [simp]:
  "item (emit e pg) = item pg"
  "setItem_throws (emit e pg) = setItem_throws pg"
  "effects (emit e pg) = effects pg @ [e]"
  "status (emit e pg) = status pg"
  "modals (emit e pg) = modals pg"
  "esc_listeners (emit e pg) = esc_listeners pg"
  by (simp_all add: emit_def)

lemma journal_append_ok:
  assumes "JSON_parse P (stored_text (item pg)) = Inr (JArr arr)" and "\<not> setItem_throws pg"
  shows "journal_append P data pg = Inr (pg\<lparr>item := Some (JSON_stringify P (JArr (arr @ [data])))\<rparr>)"
  using assms by (simp add: journal_append_def)

lemma journal_append_parse_error:
  assumes "JSON_parse P (stored_text (item pg)) = Inl e"
  shows "journal_append P data pg = Inl e"
  using assms by (simp add: journal_append_def)

lemma journal_append_not_array:
  assumes "JSON_parse P (stored_text (item pg)) = Inr v" and "\<forall>arr. v \<noteq> JArr arr"
  shows "journal_append P data pg = Inl TypeError"
  using assms by (cases v) (simp_all add: journal_append_def)

lemma journal_append_write_throws:
  assumes "setItem_throws pg"
  shows "\<exists>e. journal_append P data pg = Inl e"
  using assms by (simp add: journal_append_def split: sum.splits jsval.splits)

lemma map_of_set_prop_same [simp]: "map_of (set_prop k v ps) k = Some v"
  by (induction ps) auto

lemma map_of_set_prop_other [simp]: "k' \<noteq> k \<Longrightarrow> map_of (set_prop k v ps) k' = map_of ps k'"
  by (induction ps) auto

lemma keys_set_prop: "fst ` set (set_prop k v ps) = insert k (fst ` set ps)"
  by (induction k v ps rule: set_prop.induct) (simp_all add: insert_commute)

lemma keys_fold_set_prop:
  "fst ` set (fold (\<lambda>(k, v) obj. if k = ''__proto__'' then obj else set_prop k (JStr v) obj)
      es acc) \<subseteq> fst ` set es \<union> fst ` set acc"
proof (induction es arbitrary: acc)
  case Nil
  then show ?case by simp
next
  case (Cons e es)
  obtain k v where e: "e = (k, v)" by (cases e)
  show ?case
  proof (cases "k = ''__proto__''")
    case True
    then show ?thesis using Cons.IH [of acc] by (auto simp add: e)
  next
    case False
    then show ?thesis
      using Cons.IH [of "set_prop k (JStr v) acc"] by (auto simp add: e keys_set_prop)
  qed
qed

lemma keys_form_object: "fst ` set (form_object es) \<subseteq> fst ` set es"
  using keys_fold_set_prop [of es "[]"] by (simp add: form_object_def)

lemma form_object_no_key:
  "k \<notin> fst ` set es \<Longrightarrow> map_of (form_object es) k = None"
  using keys_form_object [of es] by (auto simp add: map_of_eq_None_iff)

lemma String_nat_nonempty: "String_nat n \<noteq> []"
  by (subst String_nat.simps) simp

lemma sample_text_not_empty_array: "sample_stringify sample_journal \<noteq> ''[]''"
  by (simp add: sample_journal_def quoted_def)

lemma sample_parse_empty [simp]: "sample_parse ''[]'' = Inr (JArr [])"
  by (simp add: sample_parse_def)

lemma sample_parse_journal [simp]:
  "sample_parse (sample_stringify sample_journal) = Inr sample_journal"
  by (simp add: sample_parse_def sample_text_not_empty_array)

lemma sample_parse_oops [simp]: "sample_parse ''{oops'' = Inl SyntaxError"
  by (simp add: sample_parse_def sample_journal_def odd_journal_def quoted_def)

lemma sample_platform_fields [simp]:
  "JSON_parse sample_platform = sample_parse"
  "JSON_stringify sample_platform = sample_stringify"
  "String_trim sample_platform = sample_trim"
  "native_text sample_platform = sample_native_text"
  by (simp_all add: sample_platform_def)

lemma local_save_ok:
  assumes "JSON_parse P (stored_text (item pg)) = Inr (JArr arr)" and "\<not> setItem_throws pg"
  shows "local_save P now obj pg =
     emit BookingFormReset
       (set_status ''Saved locally. You will receive confirmation after manual review.''
         (pg\<lparr>item := Some (JSON_stringify P
            (JArr (arr @ [JObj (set_prop ''fallbackSavedAt'' (JStr now) obj)])))\<rparr>))"
  by (simp add: local_save_def journal_append_ok [OF assms])

lemma local_save_failed:
  assumes "journal_append P (JObj (set_prop ''fallbackSavedAt'' (JStr now) obj)) pg = Inl e"
  shows "local_save P now obj pg =
     set_status ''Failed to save booking. Please try again later or contact via WhatsApp.''
       (emit ConsoleError pg)"
  using assms by (simp add: local_save_def)

lemma local_save_write_throws:
  assumes "setItem_throws pg"
  shows "local_save P now obj pg =
     set_status ''Failed to save booking. Please try again later or contact via WhatsApp.''
       (emit ConsoleError pg)"
proof -
  obtain e where "journal_append P (JObj (set_prop ''fallbackSavedAt'' (JStr now) obj)) pg = Inl e"
    using journal_append_write_throws [OF assms] by blast
  then show ?thesis by (rule local_save_failed)
qed

lemma network_failed_fields [simp]:
  "item (network_failed pg) = item pg"
  "setItem_throws (network_failed pg) = setItem_throws pg"
  "effects (network_failed pg) = effects pg @ [ConsoleWarn]"
  by (simp_all add: network_failed_def)

lemma network_failed_status:
  "status (network_failed pg) =
     (case status pg of None \<Rightarrow> None
      | Some old \<Rightarrow> Some (''Network issue '' @ em_dash @ '' booking saved locally. We will retry later.''))"
  by (simp add: network_failed_def set_status_def emit_def split: option.splits)

lemma sample_booking_fields [simp]:
  "valid sample_booking" "hp sample_booking = None"
  "endpoint sample_booking = Some ''https://example.org/book''"
  "entries sample_booking = [(''name'', ''Asha''), (''email'', ''a@x.com''), (''website'', [])]"
  by (simp_all add: sample_booking_def)

lemma sample_form_object:
  "form_object [(''name'', ''Asha''), (''email'', ''a@x.com''), (''website'', [])] =
     [(''name'', JStr ''Asha''), (''email'', JStr ''a@x.com''), (''website'', JStr [])]"
  by (simp add: form_object_def)

lemma mostRecent_array:
  "JSON_parse P (stored_text (item pg)) = Inr (JArr arr) \<Longrightarrow>
   mostRecent P pg = Inr (if arr = [] then None else Some (last arr))"
  by (simp add: mostRecent_def)

lemma mostRecent_parse_error:
  "JSON_parse P (stored_text (item pg)) = Inl e \<Longrightarrow> mostRecent P pg = Inl e"
  by (simp add: mostRecent_def)

lemma house_click_parse_error:
  "JSON_parse P (stored_text (item pg)) = Inl e \<Longrightarrow> house_click P target pg = Inl e"
  by (simp add: house_click_def mostRecent_def Let_def)

lemma house_click_lookup_error:
  "mostRecent P pg = Inl e \<Longrightarrow> house_click P target pg = Inl e"
  by (simp add: house_click_def Let_def)

lemma house_click_name_error:
  "mostRecent P pg = Inr lst \<Longrightarrow> owner_line P lst = Inl e \<Longrightarrow>
   house_click P target pg = Inl e"
  by (simp add: house_click_def Let_def)

lemma showModal_opened: "opened html pg (showModal html pg)"
  by (cases "modals pg") (simp_all add: opened_def showModal_def Let_def)

lemma house_click_opens:
  "mostRecent P pg = Inr lst \<Longrightarrow> owner_line P lst = Inr line \<Longrightarrow>
   \<exists>pg'. house_click P target pg = Inr pg' \<and> opened (house_html (house_of target) line) pg pg'"
  by (simp add: house_click_def Let_def showModal_opened)

lemma quick_submit_parse_error:
  assumes "JSON_parse P (stored_text (item pg)) = Inl e"
    and "filled (map_option (String_trim P) (qname f))" "filled (map_option (String_trim P) (qemail f))" "filled (qdob f)"
  shows "quick_submit P now f pg = Inl e"
  using assms by (simp add: quick_submit_def Let_def journal_append_parse_error)

lemma stored_text_absent:
  "it = None \<or> it = Some [] \<Longrightarrow> stored_text it = ''[]''"
  by (auto simp add: stored_text_def)

lemma showModal_content:
  "map content (modals (showModal html pg)) = map content (tl (modals pg)) @ [html]"
  by (cases "modals pg") (simp_all add: showModal_def Let_def)

lemma house_of_sector: "house_of (sector_path i) = String_nat (i + 1)"
  by (simp add: house_of_def getAttribute_data_house_def sector_path_def Let_def
      String_nat_nonempty)

lemma owner_line_shown:
  "owner_line P lst = Inr line \<Longrightarrow>
   line \<noteq> [] \<longleftrightarrow> (\<exists>n. get_name lst = Some n \<and> truthy n)"
  by (auto simp add: owner_line_def split: option.splits if_splits sum.splits)

lemma owner_line_none:
  "(\<forall>n. get_name lst = Some n \<longrightarrow> \<not> truthy n) \<Longrightarrow> owner_line P lst = Inr []"
  by (auto simp add: owner_line_def split: option.splits)

lemma owner_line_string:
  "map_of kvs ''name'' = Some (JStr n) \<Longrightarrow> n \<noteq> [] \<Longrightarrow>
   owner_line P (Some (JObj kvs)) = Inr (''<p><strong>For:</strong> '' @ n @ ''</p>'')"
  by (simp add: owner_line_def)

lemma owner_line_own_toString:
  "map_of kvs ''name'' = Some (JObj nkvs) \<Longrightarrow> map_of nkvs ''toString'' = Some member \<Longrightarrow>
   owner_line P (Some (JObj kvs)) = Inl TypeError"
  by (simp add: owner_line_def)

lemma String_nat_5: "String_nat 5 = ''5''"
  by code_simp

subsection \<open>The honeypot\<close>

text \<open>
  C9. When the \<^verbatim>\<open>.hp\<close> field of the booking form holds a non-empty value, the
  submission is dropped: the stored journal, the status text and the modals stay as they
  were, no request is made and the form is not reset. The only effect the handler can
  add is the browser's validity report, when the form fails \<^verbatim>\<open>checkValidity()\<close>, which
  is tested before the honeypot.
\<close>

theorem honeypot_discards:
  assumes "filled (hp f)"
  shows "item (booking_submit P now net f pg) = item pg \<and>
         status (booking_submit P now net f pg) = status pg \<and>
         modals (booking_submit P now net f pg) = modals pg \<and>
         effects (booking_submit P now net f pg) =
           (if valid f then effects pg else effects pg @ [ReportValidity])"
  using assms by (simp add: booking_submit_def booking_start_def booking_resume_def)

theorem honeypot_discards_witness:
  "filled (hp (sample_booking\<lparr>hp := Some ''http://spam''\<rparr>)) \<and>
   item (booking_submit sample_platform ''T2'' (HttpOk None)
          (sample_booking\<lparr>hp := Some ''http://spam''\<rparr>) page0) = None \<and>
   status (booking_submit sample_platform ''T2'' (HttpOk None)
          (sample_booking\<lparr>hp := Some ''http://spam''\<rparr>) page0) = Some [] \<and>
   effects (booking_submit sample_platform ''T2'' (HttpOk None)
          (sample_booking\<lparr>hp := Some ''http://spam''\<rparr>) page0) = []"
proof -
  have h: "filled (hp (sample_booking\<lparr>hp := Some ''http://spam''\<rparr>))"
    by (simp add: filled_def)
  show ?thesis
    using h honeypot_discards [OF h, of sample_platform "''T2''" "HttpOk None" page0]
    by (simp add: page0_def sample_booking_def)
qed

subsection \<open>Quick booking\<close>

text \<open>
  C6 as stated fails in two ways. With a date of birth of one space, which is empty
  after trimming, a record is appended and the fields are reset: line 61 reads the date
  of birth without trimming it. And with all three fields filled, a stored journal that
  is not JSON makes the handler raise before anything is appended or reset.
\<close>

theorem quick_dob_untrimmed:
  "String_trim sample_platform '' '' = [] \<and>
   quick_submit sample_platform ''T1''
     \<lparr>qname = Some ''Asha'', qemail = Some ''a@x.com'', qdob = Some '' ''\<rparr> page0 =
   Inr (page0\<lparr>item := Some (sample_stringify (JArr [JObj [(''name'', JStr ''Asha''),
              (''email'', JStr ''a@x.com''), (''dob'', JStr '' ''), (''created'', JStr ''T1'')]])),
            effects := [Alert ''Quick request received. We will contact you soon.'',
              QuickFormReset]\<rparr>) \<and>
   quick_submit sample_platform ''T1''
     \<lparr>qname = Some ''Asha'', qemail = Some ''a@x.com'', qdob = Some ''1990-01-01''\<rparr>
     (page0\<lparr>item := Some ''{oops''\<rparr>) = Inl SyntaxError"
  by (simp add: quick_submit_def journal_append_def stored_text_def page0_def filled_def
      str_of_def sample_trim_def js_space_def emit_def Let_def)

text \<open>
  What the handler does in full, when the journal can be read and written: the date of
  birth is tested and stored as entered.
\<close>

lemma quick_submit_cases:
  assumes "JSON_parse P (stored_text (item pg)) = Inr (JArr arr)" and "\<not> setItem_throws pg"
  shows "quick_submit P now f pg =
     (if filled (map_option (String_trim P) (qname f)) \<and>
         filled (map_option (String_trim P) (qemail f)) \<and> filled (qdob f)
      then Inr (pg\<lparr>item := Some (JSON_stringify P (JArr (arr @
                  [JObj [(''name'', JStr (str_of (map_option (String_trim P) (qname f)))),
                         (''email'', JStr (str_of (map_option (String_trim P) (qemail f)))),
                         (''dob'', JStr (str_of (qdob f))),
                         (''created'', JStr now)]]))),
                effects := effects pg @
                  [Alert ''Quick request received. We will contact you soon.'',
                   QuickFormReset]\<rparr>)
      else Inr (pg\<lparr>effects := effects pg @ [Alert ''Please fill all quick booking fields.'']\<rparr>))"
proof (cases "filled (map_option (String_trim P) (qname f)) \<and>
    filled (map_option (String_trim P) (qemail f)) \<and> filled (qdob f)")
  case True
  then show ?thesis
    by (simp add: quick_submit_def Let_def journal_append_ok [OF assms] emit_def)
next
  case False
  then show ?thesis
    by (auto simp add: quick_submit_def Let_def emit_def)
qed

lemma filled_plain:
  assumes "String_trim P (str_of v) = str_of v"
  shows "filled (map_option (String_trim P) v) = filled v"
  using assms by (cases v) (simp_all add: filled_def str_of_def)

text \<open>
  C6, amended. When the stored journal parses to an array, \<^verbatim>\<open>setItem\<close> does not throw
  and the date of birth has no white space around it (trimming leaves it as it is, as
  for the value of a date input), a quick-book submission appends exactly one record,
  with the trimmed name, the trimmed email, the date of birth and the time, and resets
  the fields if the name, the email and the date of birth are all non-empty after
  trimming; otherwise it appends nothing and shows the validation message.
\<close>

theorem quick_submit_outcome:
  assumes "JSON_parse P (stored_text (item pg)) = Inr (JArr arr)" and "\<not> setItem_throws pg"
    and "String_trim P (str_of (qdob f)) = str_of (qdob f)"
  shows "quick_submit P now f pg =
     (if filled (map_option (String_trim P) (qname f)) \<and>
         filled (map_option (String_trim P) (qemail f)) \<and>
         filled (map_option (String_trim P) (qdob f))
      then Inr (pg\<lparr>item := Some (JSON_stringify P (JArr (arr @
                  [JObj [(''name'', JStr (str_of (map_option (String_trim P) (qname f)))),
                         (''email'', JStr (str_of (map_option (String_trim P) (qemail f)))),
                         (''dob'', JStr (str_of (qdob f))),
                         (''created'', JStr now)]]))),
                effects := effects pg @
                  [Alert ''Quick request received. We will contact you soon.'',
                   QuickFormReset]\<rparr>)
      else Inr (pg\<lparr>effects := effects pg @ [Alert ''Please fill all quick booking fields.'']\<rparr>))"
  unfolding filled_plain [OF assms(3)]
  by (rule quick_submit_cases [OF assms(1,2)])

theorem quick_submit_outcome_witness:
  "JSON_parse sample_platform (stored_text (item page0)) = Inr (JArr []) \<and>
   \<not> setItem_throws page0 \<and>
   String_trim sample_platform ''1990-01-01'' = ''1990-01-01'' \<and>
   quick_submit sample_platform ''T1''
     \<lparr>qname = Some '' Asha '', qemail = Some ''a@x.com'', qdob = Some ''1990-01-01''\<rparr> page0 =
   Inr (page0\<lparr>item := Some (sample_stringify sample_journal),
            effects := [Alert ''Quick request received. We will contact you soon.'',
              QuickFormReset]\<rparr>) \<and>
   quick_submit sample_platform ''T1''
     \<lparr>qname = Some ''   '', qemail = Some ''a@x.com'', qdob = Some ''1990-01-01''\<rparr> page0 =
   Inr (page0\<lparr>effects := [Alert ''Please fill all quick booking fields.'']\<rparr>)"
proof -
  let ?ok = "\<lparr>qname = Some '' Asha '', qemail = Some ''a@x.com'', qdob = Some ''1990-01-01''\<rparr>"
  let ?blank = "\<lparr>qname = Some ''   '', qemail = Some ''a@x.com'', qdob = Some ''1990-01-01''\<rparr>"
  have parse: "JSON_parse sample_platform (stored_text (item page0)) = Inr (JArr [])"
    by (simp add: page0_def stored_text_def)
  have writes: "\<not> setItem_throws page0"
    by (simp add: page0_def)
  have trims: "sample_trim '' Asha '' = ''Asha''" "sample_trim ''a@x.com'' = ''a@x.com''"
    "sample_trim ''   '' = []" "sample_trim ''1990-01-01'' = ''1990-01-01''"
    by (simp_all add: sample_trim_def js_space_def)
  have plain: "String_trim sample_platform (str_of (qdob ?ok)) = str_of (qdob ?ok)"
    "String_trim sample_platform (str_of (qdob ?blank)) = str_of (qdob ?blank)"
    by (simp_all add: str_of_def trims)
  show ?thesis
    using parse writes
      quick_submit_outcome [OF parse writes plain(1), of "''T1''"]
      quick_submit_outcome [OF parse writes plain(2), of "''T1''"]
    by (simp add: trims filled_def str_of_def sample_journal_def page0_def)
qed

subsection \<open>Full booking: the network outcomes\<close>

text \<open>
  C7 as stated fails when the stored journal is not JSON: with a successful response,
  and with an HTTP error, the journal is left as it was (no record is appended) and the
  status ends as the failure message.
\<close>

theorem booking_unreadable_journal:
  "item (booking_submit sample_platform ''T2'' (HttpOk (Some (JObj [(''id'', JStr ''b1'')])))
      sample_booking (page0\<lparr>item := Some ''{oops''\<rparr>)) = Some ''{oops'' \<and>
   status (booking_submit sample_platform ''T2'' (HttpOk (Some (JObj [(''id'', JStr ''b1'')])))
      sample_booking (page0\<lparr>item := Some ''{oops''\<rparr>)) =
     Some ''Failed to save booking. Please try again later or contact via WhatsApp.'' \<and>
   item (booking_submit sample_platform ''T2'' (HttpError 500)
      sample_booking (page0\<lparr>item := Some ''{oops''\<rparr>)) = Some ''{oops''"
  by (simp add: booking_submit_def booking_start_def booking_resume_def sample_booking_def
      filled_def web_endpoint_def Let_def journal_append_def local_save_def stored_text_def page0_def network_failed_def
      set_status_def emit_def)

text \<open>
  C7, amended. For a submission that reaches the network request (the form is valid, the
  honeypot is empty, the endpoint starts with \<^verbatim>\<open>http\<close>), when the stored journal parses
  to an array and \<^verbatim>\<open>setItem\<close> does not throw: on a successful response exactly one
  record is appended, the form's fields with the server response (\<^verbatim>\<open>null\<close> when the
  body is not JSON) and the submission time, and the form is reset; on an HTTP error, a
  timeout or a failed request exactly one record is appended, the form's fields with the
  fallback time, which has no server response unless the form has a field of that name,
  and the form is reset.
\<close>

theorem booking_network_outcomes:
  assumes "valid f" and "\<not> filled (hp f)" and "web_endpoint (endpoint f)"
    and "JSON_parse P (stored_text (item pg)) = Inr (JArr arr)" and "\<not> setItem_throws pg"
  shows
    "(\<forall>body. net = HttpOk body \<longrightarrow>
        item (booking_submit P now net f pg) =
          Some (JSON_stringify P (JArr (arr @
            [JObj (set_prop ''submittedAt'' (JStr now)
               (set_prop ''serverResponse'' (case body of None \<Rightarrow> JNull | Some j \<Rightarrow> j)
                 (form_object (entries f))))]))) \<and>
        map_of (set_prop ''submittedAt'' (JStr now)
               (set_prop ''serverResponse'' (case body of None \<Rightarrow> JNull | Some j \<Rightarrow> j)
                 (form_object (entries f)))) ''serverResponse'' =
          Some (case body of None \<Rightarrow> JNull | Some j \<Rightarrow> j) \<and>
        effects (booking_submit P now net f pg) =
          effects pg @
            [Fetch (str_of (endpoint f)) (JSON_stringify P (JObj (form_object (entries f)))),
             BookingFormReset]) \<and>
     ((\<exists>code. net = HttpError code) \<or> net = TimedOut \<or> net = NetworkError \<longrightarrow>
        item (booking_submit P now net f pg) =
          Some (JSON_stringify P (JArr (arr @
            [JObj (set_prop ''fallbackSavedAt'' (JStr now) (form_object (entries f)))]))) \<and>
        map_of (set_prop ''fallbackSavedAt'' (JStr now) (form_object (entries f)))
          ''fallbackSavedAt'' = Some (JStr now) \<and>
        (''serverResponse'' \<notin> fst ` set (entries f) \<longrightarrow>
           map_of (set_prop ''fallbackSavedAt'' (JStr now) (form_object (entries f)))
             ''serverResponse'' = None) \<and>
        effects (booking_submit P now net f pg) =
          effects pg @
            [Fetch (str_of (endpoint f)) (JSON_stringify P (JObj (form_object (entries f)))),
             ConsoleWarn, BookingFormReset])"
proof (intro conjI allI impI)
  fix body
  assume net: "net = HttpOk body"
  let ?data = "JObj (set_prop ''submittedAt'' (JStr now)
               (set_prop ''serverResponse'' (case body of None \<Rightarrow> JNull | Some j \<Rightarrow> j)
                 (form_object (entries f))))"
  let ?pg3 = "emit BookingFormReset
      (set_status ''Booking confirmed. We will email you shortly.''
        (emit (Fetch (str_of (endpoint f)) (JSON_stringify P (JObj (form_object (entries f)))))
          (set_status ''Submitting...'' pg)))"
  have "journal_append P ?data ?pg3 =
      Inr (?pg3\<lparr>item := Some (JSON_stringify P (JArr (arr @ [?data])))\<rparr>)"
    using assms(4,5) by (intro journal_append_ok) simp_all
  then have run: "booking_submit P now net f pg =
      ?pg3\<lparr>item := Some (JSON_stringify P (JArr (arr @ [?data])))\<rparr>"
    using assms(1-3) net by (simp add: booking_submit_def booking_start_def booking_resume_def Let_def)
  show "item (booking_submit P now net f pg) = Some (JSON_stringify P (JArr (arr @ [?data])))"
    by (simp add: run)
  show "effects (booking_submit P now net f pg) =
          effects pg @
            [Fetch (str_of (endpoint f)) (JSON_stringify P (JObj (form_object (entries f)))),
             BookingFormReset]"
    by (simp add: run)
  show "map_of (set_prop ''submittedAt'' (JStr now)
               (set_prop ''serverResponse'' (case body of None \<Rightarrow> JNull | Some j \<Rightarrow> j)
                 (form_object (entries f)))) ''serverResponse'' =
          Some (case body of None \<Rightarrow> JNull | Some j \<Rightarrow> j)"
    by simp
next
  assume net: "(\<exists>code. net = HttpError code) \<or> net = TimedOut \<or> net = NetworkError"
  let ?data = "JObj (set_prop ''fallbackSavedAt'' (JStr now) (form_object (entries f)))"
  let ?pg2 = "emit (Fetch (str_of (endpoint f)) (JSON_stringify P (JObj (form_object (entries f)))))
          (set_status ''Submitting...'' pg)"
  have "booking_submit P now net f pg = local_save P now (form_object (entries f)) (network_failed ?pg2)"
    using assms(1-3) net by (auto simp add: booking_submit_def booking_start_def booking_resume_def Let_def)
  also have "\<dots> = emit BookingFormReset
       (set_status ''Saved locally. You will receive confirmation after manual review.''
         ((network_failed ?pg2)\<lparr>item := Some (JSON_stringify P (JArr (arr @ [?data])))\<rparr>))"
    using assms(4,5) by (intro local_save_ok) simp_all
  finally have run: "booking_submit P now net f pg = emit BookingFormReset
       (set_status ''Saved locally. You will receive confirmation after manual review.''
         ((network_failed ?pg2)\<lparr>item := Some (JSON_stringify P (JArr (arr @ [?data])))\<rparr>))" .
  show "item (booking_submit P now net f pg) = Some (JSON_stringify P (JArr (arr @ [?data])))"
    by (simp add: run)
  show "effects (booking_submit P now net f pg) =
          effects pg @
            [Fetch (str_of (endpoint f)) (JSON_stringify P (JObj (form_object (entries f)))),
             ConsoleWarn, BookingFormReset]"
    by (simp add: run)
  show "map_of (set_prop ''fallbackSavedAt'' (JStr now) (form_object (entries f)))
          ''fallbackSavedAt'' = Some (JStr now)"
    by simp
next
  assume "''serverResponse'' \<notin> fst ` set (entries f)"
  then show "map_of (set_prop ''fallbackSavedAt'' (JStr now) (form_object (entries f)))
             ''serverResponse'' = None"
    by (simp add: form_object_no_key)
qed

theorem booking_network_outcomes_witness:
  "valid sample_booking \<and> \<not> filled (hp sample_booking) \<and>
   web_endpoint (endpoint sample_booking) \<and>
   JSON_parse sample_platform (stored_text (item page0)) = Inr (JArr []) \<and>
   \<not> setItem_throws page0 \<and>
   item (booking_submit sample_platform ''T2'' (HttpOk (Some (JObj [(''id'', JStr ''b1'')])))
      sample_booking page0) =
     Some (sample_stringify (JArr [JObj [(''name'', JStr ''Asha''), (''email'', JStr ''a@x.com''),
       (''website'', JStr []), (''serverResponse'', JObj [(''id'', JStr ''b1'')]),
       (''submittedAt'', JStr ''T2'')]])) \<and>
   item (booking_submit sample_platform ''T2'' (HttpError 500) sample_booking page0) =
     Some (sample_stringify (JArr [JObj [(''name'', JStr ''Asha''), (''email'', JStr ''a@x.com''),
       (''website'', JStr []), (''fallbackSavedAt'', JStr ''T2'')]])) \<and>
   item (booking_submit sample_platform ''T2'' TimedOut sample_booking page0) =
     Some (sample_stringify (JArr [JObj [(''name'', JStr ''Asha''), (''email'', JStr ''a@x.com''),
       (''website'', JStr []), (''fallbackSavedAt'', JStr ''T2'')]]))"
proof -
  have a: "valid sample_booking" by simp
  have b: "\<not> filled (hp sample_booking)" by (simp add: filled_def)
  have c: "web_endpoint (endpoint sample_booking)" by (simp add: web_endpoint_def)
  have d: "JSON_parse sample_platform (stored_text (item page0)) = Inr (JArr [])"
    by (simp add: page0_def stored_text_def)
  have e: "\<not> setItem_throws page0" by (simp add: page0_def)
  note outcome = booking_network_outcomes [OF a b c d e, of _ "''T2''"]
  have ok: "item (booking_submit sample_platform ''T2'' (HttpOk (Some (JObj [(''id'', JStr ''b1'')])))
      sample_booking page0) =
     Some (sample_stringify (JArr [JObj [(''name'', JStr ''Asha''), (''email'', JStr ''a@x.com''),
       (''website'', JStr []), (''serverResponse'', JObj [(''id'', JStr ''b1'')]),
       (''submittedAt'', JStr ''T2'')]]))"
    using outcome [of "HttpOk (Some (JObj [(''id'', JStr ''b1'')]))"]
    by (simp add: sample_form_object)
  have err: "item (booking_submit sample_platform ''T2'' (HttpError 500) sample_booking page0) =
     Some (sample_stringify (JArr [JObj [(''name'', JStr ''Asha''), (''email'', JStr ''a@x.com''),
       (''website'', JStr []), (''fallbackSavedAt'', JStr ''T2'')]]))"
    using outcome [of "HttpError 500"] by (simp add: sample_form_object)
  have late: "item (booking_submit sample_platform ''T2'' TimedOut sample_booking page0) =
     Some (sample_stringify (JArr [JObj [(''name'', JStr ''Asha''), (''email'', JStr ''a@x.com''),
       (''website'', JStr []), (''fallbackSavedAt'', JStr ''T2'')]]))"
    using outcome [of TimedOut] by (simp add: sample_form_object)
  show ?thesis
    using a b c d e ok err late by blast
qed

subsection \<open>Full booking: a write that throws\<close>

text \<open>
  C8 as stated fails after a successful response: the form is reset on line 115, before
  the write of line 117 is attempted, so when \<^verbatim>\<open>setItem\<close> throws the form has been
  reset and nothing has been stored.
\<close>

theorem booking_reset_precedes_write:
  "setItem_throws (page0\<lparr>setItem_throws := True\<rparr>) \<and>
   effects (booking_submit sample_platform ''T2'' (HttpOk None) sample_booking
      (page0\<lparr>setItem_throws := True\<rparr>)) =
     [Fetch ''https://example.org/book''
        (sample_stringify (JObj [(''name'', JStr ''Asha''), (''email'', JStr ''a@x.com''),
           (''website'', JStr [])])),
      BookingFormReset, ConsoleWarn, ConsoleError] \<and>
   item (booking_submit sample_platform ''T2'' (HttpOk None) sample_booking
      (page0\<lparr>setItem_throws := True\<rparr>)) = None"
  by (simp add: booking_submit_def booking_start_def booking_resume_def filled_def
      web_endpoint_def Let_def str_of_def journal_append_def local_save_def stored_text_def page0_def network_failed_def
      set_status_def emit_def sample_form_object del: sample_stringify.simps)

text \<open>
  C8, amended. In the full booking flow (a valid submission with an empty honeypot, on a
  page that has the status element), when the save is local only, that is when no web
  endpoint is configured or the network attempt failed, and \<^verbatim>\<open>setItem\<close> throws, the
  status ends as the message that saving failed, the stored journal is unchanged and the
  form is not reset: the only effects are the request, if one was made, and the console
  entries. After a successful response the form has already been reset when the write is
  attempted, and a throwing write leaves the journal unchanged.
\<close>

theorem booking_write_failure:
  assumes "valid f" and "\<not> filled (hp f)" and "setItem_throws pg" and "status pg = Some shown"
  shows
    "(\<not> web_endpoint (endpoint f) \<longrightarrow>
        status (booking_submit P now net f pg) =
          Some ''Failed to save booking. Please try again later or contact via WhatsApp.'' \<and>
        item (booking_submit P now net f pg) = item pg \<and>
        effects (booking_submit P now net f pg) = effects pg @ [ConsoleError]) \<and>
     (web_endpoint (endpoint f) \<and> (\<forall>body. net \<noteq> HttpOk body) \<longrightarrow>
        status (booking_submit P now net f pg) =
          Some ''Failed to save booking. Please try again later or contact via WhatsApp.'' \<and>
        item (booking_submit P now net f pg) = item pg \<and>
        effects (booking_submit P now net f pg) =
          effects pg @
            [Fetch (str_of (endpoint f)) (JSON_stringify P (JObj (form_object (entries f)))),
             ConsoleWarn, ConsoleError]) \<and>
     (web_endpoint (endpoint f) \<and> (\<exists>body. net = HttpOk body) \<longrightarrow>
        item (booking_submit P now net f pg) = item pg \<and>
        BookingFormReset \<in> set (effects (booking_submit P now net f pg)))"
proof -
  let ?obj = "form_object (entries f)"
  let ?failed = "\<lambda>q. set_status
      ''Failed to save booking. Please try again later or contact via WhatsApp.''
      (emit ConsoleError q)"
  let ?pg1 = "set_status ''Submitting...'' pg"
  let ?pg2 = "emit (Fetch (str_of (endpoint f)) (JSON_stringify P (JObj ?obj))) ?pg1"
  let ?pg3 = "emit BookingFormReset
      (set_status ''Booking confirmed. We will email you shortly.'' ?pg2)"
  have save: "local_save P now ?obj q = ?failed q" if "setItem_throws q" for q
    using that by (rule local_save_write_throws)
  have run_local: "booking_submit P now net f pg =
      ?failed (set_status (''No server endpoint configured '' @ em_dash @ '' saving locally.'') ?pg1)"
    if "\<not> web_endpoint (endpoint f)"
    using that assms(1-3)
    by (simp add: booking_submit_def booking_start_def booking_resume_def Let_def save)
  have run_down: "booking_submit P now net f pg = ?failed (network_failed ?pg2)"
    if "web_endpoint (endpoint f)" "\<forall>body. net \<noteq> HttpOk body"
    using that assms(1-3)
    by (cases net)
      (simp_all add: booking_submit_def booking_start_def booking_resume_def Let_def save)
  have run_up: "booking_submit P now net f pg = ?failed (network_failed ?pg3)"
    if "web_endpoint (endpoint f)" "net = HttpOk body" for body
  proof -
    obtain e where "journal_append P
        (JObj (set_prop ''submittedAt'' (JStr now)
           (set_prop ''serverResponse'' (case body of None \<Rightarrow> JNull | Some j \<Rightarrow> j) ?obj))) ?pg3 = Inl e"
      using journal_append_write_throws [of ?pg3] assms(3) by auto
    then show ?thesis
      using that assms(1-3)
    by (simp add: booking_submit_def booking_start_def booking_resume_def Let_def save)
  qed
  have s1: "status ?pg1 \<noteq> None" using assms(4) by simp
  have s2: "status ?pg2 \<noteq> None" using s1 by simp
  have s3: "status ?pg3 \<noteq> None" using s2 by (simp split: option.splits)
  consider (local) "\<not> web_endpoint (endpoint f)"
    | (down) "web_endpoint (endpoint f)" "\<forall>body. net \<noteq> HttpOk body"
    | (up) body where "web_endpoint (endpoint f)" "net = HttpOk body"
    by blast
  then show ?thesis
  proof cases
    case local
    note eq = run_local [OF local]
    show ?thesis
      using s1 local by (simp add: eq split: option.splits)
  next
    case down
    note eq = run_down [OF down]
    show ?thesis
      using s2 down by (simp add: eq network_failed_status split: option.splits)
  next
    case up
    note eq = run_up [OF up]
    have "\<exists>body. net = HttpOk body" using up(2) by blast
    then show ?thesis
      using s3 up(1) by (simp add: eq network_failed_status split: option.splits)
  qed
qed

theorem booking_write_failure_witness:
  "valid sample_booking \<and> \<not> filled (hp sample_booking) \<and>
   setItem_throws (page0\<lparr>setItem_throws := True\<rparr>) \<and>
   status (page0\<lparr>setItem_throws := True\<rparr>) = Some [] \<and>
   status (booking_submit sample_platform ''T2'' TimedOut sample_booking
      (page0\<lparr>setItem_throws := True\<rparr>)) =
     Some ''Failed to save booking. Please try again later or contact via WhatsApp.'' \<and>
   item (booking_submit sample_platform ''T2'' TimedOut sample_booking
      (page0\<lparr>setItem_throws := True\<rparr>)) = None \<and>
   effects (booking_submit sample_platform ''T2'' TimedOut sample_booking
      (page0\<lparr>setItem_throws := True\<rparr>)) =
     [Fetch ''https://example.org/book''
        (sample_stringify (JObj [(''name'', JStr ''Asha''), (''email'', JStr ''a@x.com''),
           (''website'', JStr [])])),
      ConsoleWarn, ConsoleError] \<and>
   effects (booking_submit sample_platform ''T2'' TimedOut
      (sample_booking\<lparr>endpoint := None\<rparr>) (page0\<lparr>setItem_throws := True\<rparr>)) =
     [ConsoleError]"
proof -
  have a: "valid sample_booking" "valid (sample_booking\<lparr>endpoint := None\<rparr>)" by simp_all
  have b: "\<not> filled (hp sample_booking)" "\<not> filled (hp (sample_booking\<lparr>endpoint := None\<rparr>))"
    by (simp_all add: filled_def)
  have c: "setItem_throws (page0\<lparr>setItem_throws := True\<rparr>)" by simp
  have d: "status (page0\<lparr>setItem_throws := True\<rparr>) = Some []" by (simp add: page0_def)
  have e: "web_endpoint (endpoint sample_booking)"
    "\<not> web_endpoint (endpoint (sample_booking\<lparr>endpoint := None\<rparr>))"
    by (simp_all add: web_endpoint_def)
  have f: "\<forall>body. TimedOut \<noteq> HttpOk body" by simp
  have g: "effects (page0\<lparr>setItem_throws := True\<rparr>) = []"
    "item (page0\<lparr>setItem_throws := True\<rparr>) = None" by (simp_all add: page0_def)
  show ?thesis
    using a b c d e f
      booking_write_failure [OF a(1) b(1) c d, of sample_platform "''T2''" TimedOut]
      booking_write_failure [OF a(2) b(2) c d, of sample_platform "''T2''" TimedOut]
    by (simp add: g str_of_def sample_form_object del: sample_stringify.simps)
qed

subsection \<open>Reading the journal\<close>

lemma sample_parse_values [simp]:
  "sample_parse ''null'' = Inr JNull"
  "sample_parse ''5'' = Inr (JNum 5)"
  "sample_parse ''true'' = Inr (JBool True)"
  "sample_parse ''{}'' = Inr (JObj [])"
  by (simp_all add: sample_parse_def sample_journal_def quoted_def)

lemma sample_parse_odd [simp]: "sample_parse (sample_stringify odd_journal) = Inr odd_journal"
  by (simp add: sample_parse_def sample_journal_def odd_journal_def quoted_def)

lemma stored_text_Some [simp]: "s \<noteq> [] \<Longrightarrow> stored_text (Some s) = s"
  by (simp add: stored_text_def)

lemma sample_odd_text_nonempty: "sample_stringify odd_journal \<noteq> []"
  by (simp add: odd_journal_def)

lemma sample_journal_text_nonempty: "sample_stringify sample_journal \<noteq> []"
  by (simp add: sample_journal_def)

text \<open>What the lookup of line 203 yields on each kind of parsed value.\<close>

lemma mostRecent_parsed:
  "JSON_parse P (stored_text (item pg)) = Inr v \<Longrightarrow> mostRecent P pg = last_of P v"
  by (simp add: mostRecent_def)

lemma last_of_no_record:
  assumes "(\<exists>b. v = JBool b) \<or> (\<exists>x. v = JNum x) \<or> v = JStr [] \<or> v = JArr [] \<or>
     (\<exists>kvs. v = JObj kvs \<and> (\<forall>n. map_of kvs ''length'' = Some n \<longrightarrow> \<not> truthy n))"
  shows "last_of P v = Inr None"
  using assms by (auto split: option.splits)

text \<open>
  C2 as stated fails on a stored text that is not JSON, where the most-recent lookup
  raises the parse error instead of yielding none, and on two kinds of stored JSON that
  is no sequence: \<^verbatim>\<open>null\<close> makes the lookup raise a type error, and any value but an
  array (here \<^verbatim>\<open>5\<close> and \<^verbatim>\<open>{}\<close>) makes the append of the quick-book handler raise
  one.
\<close>

theorem malformed_journal_raises:
  "mostRecent sample_platform (page0\<lparr>item := Some ''{oops''\<rparr>) = Inl SyntaxError \<and>
   mostRecent sample_platform (page0\<lparr>item := Some ''{oops''\<rparr>) \<noteq> Inr None \<and>
   mostRecent sample_platform (page0\<lparr>item := Some ''null''\<rparr>) = Inl TypeError \<and>
   journal_append sample_platform (JObj []) (page0\<lparr>item := Some ''5''\<rparr>) = Inl TypeError \<and>
   quick_submit sample_platform ''T1''
     \<lparr>qname = Some ''Asha'', qemail = Some ''a@x.com'', qdob = Some ''1990-01-01''\<rparr>
     (page0\<lparr>item := Some ''{}''\<rparr>) = Inl TypeError"
  by (simp add: mostRecent_def journal_append_def quick_submit_def filled_def str_of_def
      sample_trim_def js_space_def Let_def)

text \<open>
  C2, amended. A journal read takes the text \<^verbatim>\<open>[]\<close> for an absent key and for an
  empty stored text, so the most-recent lookup then yields none (on a platform that
  parses \<^verbatim>\<open>[]\<close> to the empty array). A stored text that \<^verbatim>\<open>JSON.parse\<close> rejects is
  not treated as empty: the parse error leaves the most-recent lookup, the sector
  handler, the append and, when its fields are filled, the quick-book handler. For a
  stored JSON value that is no sequence, the most-recent lookup yields none for a
  boolean, a number, the empty string and an object whose \<^verbatim>\<open>length\<close> is missing or
  falsy, as it does for the empty array; it yields the last character for a non-empty
  string and the property that a truthy \<^verbatim>\<open>length\<close> leads to for an object; and it
  raises a type error for \<^verbatim>\<open>null\<close>, as the sector handler then does. The append
  raises a type error for every parsed value but an array, and so does the quick-book
  handler when its fields are filled.
\<close>

theorem journal_read_policy:
  "(item pg = None \<or> item pg = Some [] \<longrightarrow>
      stored_text (item pg) = ''[]'' \<and>
      (JSON_parse P ''[]'' = Inr (JArr []) \<longrightarrow> mostRecent P pg = Inr None)) \<and>
   (\<forall>e. JSON_parse P (stored_text (item pg)) = Inl e \<longrightarrow>
      mostRecent P pg = Inl e \<and>
      house_click P target pg = Inl e \<and>
      journal_append P data pg = Inl e \<and>
      (filled (map_option (String_trim P) (qname f)) \<and>
       filled (map_option (String_trim P) (qemail f)) \<and>
       filled (qdob f) \<longrightarrow> quick_submit P now f pg = Inl e)) \<and>
   (\<forall>v. JSON_parse P (stored_text (item pg)) = Inr v \<and>
        ((\<exists>b. v = JBool b) \<or> (\<exists>x. v = JNum x) \<or> v = JStr [] \<or> v = JArr [] \<or>
         (\<exists>kvs. v = JObj kvs \<and> (\<forall>n. map_of kvs ''length'' = Some n \<longrightarrow> \<not> truthy n))) \<longrightarrow>
      mostRecent P pg = Inr None) \<and>
   (\<forall>s c. JSON_parse P (stored_text (item pg)) = Inr (JStr (s @ [c])) \<longrightarrow>
      mostRecent P pg = Inr (Some (JStr [c]))) \<and>
   (\<forall>arr a. JSON_parse P (stored_text (item pg)) = Inr (JArr (arr @ [a])) \<longrightarrow>
      mostRecent P pg = Inr (Some a)) \<and>
   (\<forall>kvs n. JSON_parse P (stored_text (item pg)) = Inr (JObj kvs) \<and>
        map_of kvs ''length'' = Some n \<and> truthy n \<longrightarrow>
      mostRecent P pg =
        (case index_before P n of Inl e \<Rightarrow> Inl e | Inr k \<Rightarrow> Inr (map_of kvs k))) \<and>
   (JSON_parse P (stored_text (item pg)) = Inr JNull \<longrightarrow>
      mostRecent P pg = Inl TypeError \<and> house_click P target pg = Inl TypeError) \<and>
   (\<forall>v. JSON_parse P (stored_text (item pg)) = Inr v \<and> (\<forall>arr. v \<noteq> JArr arr) \<longrightarrow>
      journal_append P data pg = Inl TypeError \<and>
      (filled (map_option (String_trim P) (qname f)) \<and>
       filled (map_option (String_trim P) (qemail f)) \<and>
       filled (qdob f) \<longrightarrow> quick_submit P now f pg = Inl TypeError))"
proof (intro conjI allI impI)
  assume absent: "item pg = None \<or> item pg = Some []"
  then show raw: "stored_text (item pg) = ''[]''" by (rule stored_text_absent)
  assume "JSON_parse P ''[]'' = Inr (JArr [])"
  then have "JSON_parse P (stored_text (item pg)) = Inr (JArr [])" by (simp add: raw)
  then show "mostRecent P pg = Inr None" by (simp add: mostRecent_array)
next
  fix e
  assume bad: "JSON_parse P (stored_text (item pg)) = Inl e"
  show "mostRecent P pg = Inl e" using bad by (rule mostRecent_parse_error)
  show "house_click P target pg = Inl e" using bad by (rule house_click_parse_error)
  show "journal_append P data pg = Inl e" using bad by (rule journal_append_parse_error)
  assume "filled (map_option (String_trim P) (qname f)) \<and>
       filled (map_option (String_trim P) (qemail f)) \<and> filled (qdob f)"
  then show "quick_submit P now f pg = Inl e"
    using bad by (intro quick_submit_parse_error) simp_all
next
  fix v
  assume "JSON_parse P (stored_text (item pg)) = Inr v \<and>
        ((\<exists>b. v = JBool b) \<or> (\<exists>x. v = JNum x) \<or> v = JStr [] \<or> v = JArr [] \<or>
         (\<exists>kvs. v = JObj kvs \<and> (\<forall>n. map_of kvs ''length'' = Some n \<longrightarrow> \<not> truthy n)))"
  then show "mostRecent P pg = Inr None"
    by (simp only: mostRecent_parsed last_of_no_record)
next
  fix s c
  assume "JSON_parse P (stored_text (item pg)) = Inr (JStr (s @ [c]))"
  then show "mostRecent P pg = Inr (Some (JStr [c]))" by (simp add: mostRecent_parsed)
next
  fix arr a
  assume "JSON_parse P (stored_text (item pg)) = Inr (JArr (arr @ [a]))"
  then show "mostRecent P pg = Inr (Some a)" by (simp add: mostRecent_parsed)
next
  fix kvs n
  assume "JSON_parse P (stored_text (item pg)) = Inr (JObj kvs) \<and>
        map_of kvs ''length'' = Some n \<and> truthy n"
  then show "mostRecent P pg =
        (case index_before P n of Inl e \<Rightarrow> Inl e | Inr k \<Rightarrow> Inr (map_of kvs k))"
    by (simp add: mostRecent_parsed)
next
  assume null: "JSON_parse P (stored_text (item pg)) = Inr JNull"
  then show lookup: "mostRecent P pg = Inl TypeError" by (simp add: mostRecent_parsed)
  then show "house_click P target pg = Inl TypeError" by (rule house_click_lookup_error)
next
  fix v
  assume other: "JSON_parse P (stored_text (item pg)) = Inr v \<and> (\<forall>arr. v \<noteq> JArr arr)"
  then have parsed: "JSON_parse P (stored_text (item pg)) = Inr v" and "\<forall>arr. v \<noteq> JArr arr"
    by blast+
  then show "journal_append P data pg = Inl TypeError"
    by (rule journal_append_not_array)
  assume "filled (map_option (String_trim P) (qname f)) \<and>
       filled (map_option (String_trim P) (qemail f)) \<and> filled (qdob f)"
  moreover have "journal_append P d pg = Inl TypeError" for d
    using parsed \<open>\<forall>arr. v \<noteq> JArr arr\<close> by (rule journal_append_not_array)
  ultimately show "quick_submit P now f pg = Inl TypeError"
    by (simp add: quick_submit_def Let_def)
qed

theorem journal_read_policy_witness:
  "item page0 = None \<and> JSON_parse sample_platform ''[]'' = Inr (JArr []) \<and>
   mostRecent sample_platform page0 = Inr None \<and>
   JSON_parse sample_platform (stored_text (item (page0\<lparr>item := Some ''{oops''\<rparr>))) =
     Inl SyntaxError \<and>
   house_click sample_platform (sector_path 4) (page0\<lparr>item := Some ''{oops''\<rparr>) =
     Inl SyntaxError \<and>
   filled (map_option (String_trim sample_platform) (qname \<lparr>qname = Some ''Asha'',
      qemail = Some ''a@x.com'', qdob = Some ''1990-01-01''\<rparr>)) \<and>
   quick_submit sample_platform ''T1''
     \<lparr>qname = Some ''Asha'', qemail = Some ''a@x.com'', qdob = Some ''1990-01-01''\<rparr>
     (page0\<lparr>item := Some ''{oops''\<rparr>) = Inl SyntaxError \<and>
   JSON_parse sample_platform (stored_text (item (page0\<lparr>item := Some ''5''\<rparr>))) =
     Inr (JNum 5) \<and>
   mostRecent sample_platform (page0\<lparr>item := Some ''5''\<rparr>) = Inr None \<and>
   journal_append sample_platform (JObj []) (page0\<lparr>item := Some ''5''\<rparr>) = Inl TypeError \<and>
   JSON_parse sample_platform (stored_text (item (page0\<lparr>item := Some ''{}''\<rparr>))) =
     Inr (JObj []) \<and>
   mostRecent sample_platform (page0\<lparr>item := Some ''{}''\<rparr>) = Inr None \<and>
   quick_submit sample_platform ''T1''
     \<lparr>qname = Some ''Asha'', qemail = Some ''a@x.com'', qdob = Some ''1990-01-01''\<rparr>
     (page0\<lparr>item := Some ''{}''\<rparr>) = Inl TypeError \<and>
   JSON_parse sample_platform (stored_text (item (page0\<lparr>item := Some ''null''\<rparr>))) =
     Inr JNull \<and>
   mostRecent sample_platform (page0\<lparr>item := Some ''null''\<rparr>) = Inl TypeError \<and>
   house_click sample_platform (sector_path 4) (page0\<lparr>item := Some ''null''\<rparr>) =
     Inl TypeError \<and>
   JSON_parse sample_platform
     (stored_text (item (page0\<lparr>item := Some (sample_stringify sample_journal)\<rparr>))) =
     Inr (JArr ([] @ [JObj [(''name'', JStr ''Asha''), (''email'', JStr ''a@x.com''),
                 (''dob'', JStr ''1990-01-01''), (''created'', JStr ''T1'')]])) \<and>
   mostRecent sample_platform (page0\<lparr>item := Some (sample_stringify sample_journal)\<rparr>) =
     Inr (Some (JObj [(''name'', JStr ''Asha''), (''email'', JStr ''a@x.com''),
                 (''dob'', JStr ''1990-01-01''), (''created'', JStr ''T1'')]))"
proof -
  let ?f = "\<lparr>qname = Some ''Asha'', qemail = Some ''a@x.com'', qdob = Some ''1990-01-01''\<rparr>"
  let ?bad = "page0\<lparr>item := Some ''{oops''\<rparr>"
  let ?five = "page0\<lparr>item := Some ''5''\<rparr>"
  let ?obj = "page0\<lparr>item := Some ''{}''\<rparr>"
  let ?null = "page0\<lparr>item := Some ''null''\<rparr>"
  let ?asha = "page0\<lparr>item := Some (sample_stringify sample_journal)\<rparr>"
  let ?rec = "JObj [(''name'', JStr ''Asha''), (''email'', JStr ''a@x.com''),
                 (''dob'', JStr ''1990-01-01''), (''created'', JStr ''T1'')]"
  have absent: "item page0 = None" by (simp add: page0_def)
  have empty: "JSON_parse sample_platform ''[]'' = Inr (JArr [])" by simp
  have bad: "JSON_parse sample_platform (stored_text (item ?bad)) = Inl SyntaxError"
    by simp
  have five: "JSON_parse sample_platform (stored_text (item ?five)) = Inr (JNum 5)"
    by simp
  have obj: "JSON_parse sample_platform (stored_text (item ?obj)) = Inr (JObj [])"
    by simp
  have null: "JSON_parse sample_platform (stored_text (item ?null)) = Inr JNull"
    by simp
  have asha: "JSON_parse sample_platform (stored_text (item ?asha)) = Inr (JArr ([] @ [?rec]))"
    by (simp add: sample_journal_text_nonempty) (simp add: sample_journal_def)
  have fields: "filled (map_option (String_trim sample_platform) (qname ?f))"
    "filled (map_option (String_trim sample_platform) (qemail ?f))" "filled (qdob ?f)"
    by (simp_all add: filled_def sample_trim_def js_space_def)
  have no_len: "\<forall>n. map_of [] ''length'' = Some n \<longrightarrow> \<not> truthy n" by simp
  have not_arr: "\<forall>arr. JNum 5 \<noteq> JArr arr" "\<forall>arr. JObj [] \<noteq> JArr arr" by simp_all
  have r1: "mostRecent sample_platform page0 = Inr None"
    using journal_read_policy [of page0 sample_platform] absent empty by blast
  have r2: "house_click sample_platform (sector_path 4) ?bad = Inl SyntaxError"
    using journal_read_policy [of ?bad sample_platform] bad by blast
  have r3: "quick_submit sample_platform ''T1'' ?f ?bad = Inl SyntaxError"
    using journal_read_policy [of ?bad sample_platform _ _ ?f] bad fields by blast
  have r4: "mostRecent sample_platform ?five = Inr None"
    using journal_read_policy [of ?five sample_platform] five by blast
  have r5: "journal_append sample_platform (JObj []) ?five = Inl TypeError"
    using journal_read_policy [of ?five sample_platform] five not_arr(1) by blast
  have r6: "mostRecent sample_platform ?obj = Inr None"
    using journal_read_policy [of ?obj sample_platform] obj no_len by blast
  have r7: "quick_submit sample_platform ''T1'' ?f ?obj = Inl TypeError"
    using journal_read_policy [of ?obj sample_platform _ _ ?f] obj not_arr(2) fields by blast
  have r8: "mostRecent sample_platform ?null = Inl TypeError"
    using journal_read_policy [of ?null sample_platform] null by blast
  have r9: "house_click sample_platform (sector_path 4) ?null = Inl TypeError"
    using journal_read_policy [of ?null sample_platform] null by blast
  have r10: "mostRecent sample_platform ?asha = Inr (Some ?rec)"
    using journal_read_policy [of ?asha sample_platform] asha by blast
  show ?thesis
    using absent empty bad fields(1) five obj null asha r1 r2 r3 r4 r5 r6 r7 r8 r9 r10
    by blast
qed

subsection \<open>Activating a sector\<close>

lemma house_of_kundli: "i < 12 \<Longrightarrow> house_of (filter is_path buildKundli ! i) = String_nat (i + 1)"
  by (simp add: kundli_path_nth house_of_sector)

lemma last_of_nameless:
  assumes "(\<exists>b. v = JBool b) \<or> (\<exists>x. v = JNum x) \<or> (\<exists>s. v = JStr s) \<or> v = JArr [] \<or>
     (\<exists>kvs. v = JObj kvs \<and> (\<forall>n. map_of kvs ''length'' = Some n \<longrightarrow> \<not> truthy n))"
  shows "\<exists>lst. last_of P v = Inr lst \<and> get_name lst = None"
  using assms by (auto split: option.splits)

lemma owner_line_nameless: "get_name lst = None \<Longrightarrow> owner_line P lst = Inr []"
  by (simp add: owner_line_def)

lemma owner_line_named:
  "map_of kvs ''name'' = Some n \<Longrightarrow> truthy n \<Longrightarrow> to_string P n = Inr shown \<Longrightarrow>
   owner_line P (Some (JObj kvs)) = Inr (''<p><strong>For:</strong> '' @ shown @ ''</p>'')"
  by (simp add: owner_line_def)

lemma mostRecent_last:
  "JSON_parse P (stored_text (item pg)) = Inr (JArr (arr @ [a])) \<Longrightarrow>
   mostRecent P pg = Inr (Some a)"
  by (simp add: mostRecent_parsed)

text \<open>
  C3 as stated fails in three ways. On a stored journal that is not JSON activating
  sector 5 raises the parse error; on a stored \<^verbatim>\<open>null\<close> it raises a type error; and on
  a journal whose last record has an object with a \<^verbatim>\<open>toString\<close> key as its name,
  writing the name into the line raises a type error. No modal opens in any of the
  three.
\<close>

theorem house_click_unreadable_journal:
  "house_click sample_platform (filter is_path buildKundli ! 4)
     (page0\<lparr>item := Some ''{oops''\<rparr>) = Inl SyntaxError \<and>
   house_click sample_platform (filter is_path buildKundli ! 4)
     (page0\<lparr>item := Some ''null''\<rparr>) = Inl TypeError \<and>
   odd_journal = JArr [JObj [(''name'', JObj [(''toString'', JNum 1)])]] \<and>
   house_click sample_platform (filter is_path buildKundli ! 4)
     (page0\<lparr>item := Some (sample_stringify odd_journal)\<rparr>) = Inl TypeError"
proof -
  have "house_click sample_platform (filter is_path buildKundli ! 4)
      (page0\<lparr>item := Some ''{oops''\<rparr>) = Inl SyntaxError"
    by (simp add: house_click_def mostRecent_def Let_def)
  moreover have "house_click sample_platform (filter is_path buildKundli ! 4)
      (page0\<lparr>item := Some ''null''\<rparr>) = Inl TypeError"
    by (simp add: house_click_def mostRecent_def Let_def)
  moreover have "mostRecent sample_platform (page0\<lparr>item := Some (sample_stringify odd_journal)\<rparr>) =
      Inr (Some (JObj [(''name'', JObj [(''toString'', JNum 1)])]))"
    by (simp add: mostRecent_def sample_odd_text_nonempty) (simp add: odd_journal_def)
  then have "house_click sample_platform (filter is_path buildKundli ! 4)
      (page0\<lparr>item := Some (sample_stringify odd_journal)\<rparr>) = Inl TypeError"
    by (rule house_click_name_error) (simp add: owner_line_def)
  ultimately show ?thesis
    by (simp add: odd_journal_def)
qed

text \<open>
  C3, amended. Activating sector \<open>i\<close> (counted from 0) looks up the most recent record
  and writes the line for its name; when neither step raises, it opens one modal, in
  place of an open one, with the text for house \<open>i + 1\<close>, and the line \<^verbatim>\<open>For:\<close> is part
  of it if and only if the record looked up has a truthy \<^verbatim>\<open>name\<close>. In particular the
  modal opens without the line when the journal is a boolean, a number, a string, the
  empty array or an object whose \<^verbatim>\<open>length\<close> is missing or falsy, and when the last
  record of the array has no truthy name; it opens with the line carrying the name's
  text when the last record of the array has a truthy name that converts to text, which
  a non-empty string does as itself. The handler raises and opens nothing when the
  stored text is not JSON (the parse error), when the journal is \<^verbatim>\<open>null\<close> (a type
  error), when the last record's name is an object with its own \<^verbatim>\<open>toString\<close> key (a
  type error), and whenever the lookup or the writing of the line raises.
\<close>

theorem house_click_personalizes:
  assumes "i < 12"
  shows
    "(\<forall>lst line. mostRecent P pg = Inr lst \<and> owner_line P lst = Inr line \<longrightarrow>
        (\<exists>pg'. house_click P (filter is_path buildKundli ! i) pg = Inr pg' \<and>
           opened (house_html (String_nat (i + 1)) line) pg pg') \<and>
        (line \<noteq> [] \<longleftrightarrow> (\<exists>n. get_name lst = Some n \<and> truthy n))) \<and>
     (\<forall>v. JSON_parse P (stored_text (item pg)) = Inr v \<and>
          ((\<exists>b. v = JBool b) \<or> (\<exists>x. v = JNum x) \<or> (\<exists>s. v = JStr s) \<or> v = JArr [] \<or>
           (\<exists>kvs. v = JObj kvs \<and> (\<forall>n. map_of kvs ''length'' = Some n \<longrightarrow> \<not> truthy n))) \<longrightarrow>
        (\<exists>pg'. house_click P (filter is_path buildKundli ! i) pg = Inr pg' \<and>
           opened (house_html (String_nat (i + 1)) []) pg pg')) \<and>
     (\<forall>arr a. JSON_parse P (stored_text (item pg)) = Inr (JArr (arr @ [a])) \<and>
          (\<forall>n. get_name (Some a) = Some n \<longrightarrow> \<not> truthy n) \<longrightarrow>
        (\<exists>pg'. house_click P (filter is_path buildKundli ! i) pg = Inr pg' \<and>
           opened (house_html (String_nat (i + 1)) []) pg pg')) \<and>
     (\<forall>arr kvs n shown. JSON_parse P (stored_text (item pg)) = Inr (JArr (arr @ [JObj kvs])) \<and>
          map_of kvs ''name'' = Some n \<and> truthy n \<and> to_string P n = Inr shown \<longrightarrow>
        (\<exists>pg'. house_click P (filter is_path buildKundli ! i) pg = Inr pg' \<and>
           opened (house_html (String_nat (i + 1))
             (''<p><strong>For:</strong> '' @ shown @ ''</p>'')) pg pg')) \<and>
     (\<forall>s. s \<noteq> [] \<longrightarrow> to_string P (JStr s) = Inr s \<and> truthy (JStr s)) \<and>
     (\<forall>e. JSON_parse P (stored_text (item pg)) = Inl e \<longrightarrow>
        house_click P (filter is_path buildKundli ! i) pg = Inl e) \<and>
     (JSON_parse P (stored_text (item pg)) = Inr JNull \<longrightarrow>
        house_click P (filter is_path buildKundli ! i) pg = Inl TypeError) \<and>
     (\<forall>arr kvs nkvs member.
          JSON_parse P (stored_text (item pg)) = Inr (JArr (arr @ [JObj kvs])) \<and>
          map_of kvs ''name'' = Some (JObj nkvs) \<and> map_of nkvs ''toString'' = Some member \<longrightarrow>
        house_click P (filter is_path buildKundli ! i) pg = Inl TypeError) \<and>
     (\<forall>e. mostRecent P pg = Inl e \<longrightarrow>
        house_click P (filter is_path buildKundli ! i) pg = Inl e) \<and>
     (\<forall>lst e. mostRecent P pg = Inr lst \<and> owner_line P lst = Inl e \<longrightarrow>
        house_click P (filter is_path buildKundli ! i) pg = Inl e)"
proof -
  note house = house_of_kundli [OF assms]
  have opens: "\<exists>pg'. house_click P (filter is_path buildKundli ! i) pg = Inr pg' \<and>
      opened (house_html (String_nat (i + 1)) line) pg pg'"
    if "mostRecent P pg = Inr lst" "owner_line P lst = Inr line" for lst line
    using house_click_opens [OF that, of "filter is_path buildKundli ! i"]
    by (simp only: house)
  show ?thesis
  proof (intro conjI allI impI)
    fix lst line
    assume ok: "mostRecent P pg = Inr lst \<and> owner_line P lst = Inr line"
    then have "mostRecent P pg = Inr lst" and "owner_line P lst = Inr line"
      by simp_all
    then show "\<exists>pg'. house_click P (filter is_path buildKundli ! i) pg = Inr pg' \<and>
        opened (house_html (String_nat (i + 1)) line) pg pg'"
      by (rule opens)
    show "line \<noteq> [] \<longleftrightarrow> (\<exists>n. get_name lst = Some n \<and> truthy n)"
      using owner_line_shown [of P lst line] ok by simp
  next
    fix v
    assume plain: "JSON_parse P (stored_text (item pg)) = Inr v \<and>
          ((\<exists>b. v = JBool b) \<or> (\<exists>x. v = JNum x) \<or> (\<exists>s. v = JStr s) \<or> v = JArr [] \<or>
           (\<exists>kvs. v = JObj kvs \<and> (\<forall>n. map_of kvs ''length'' = Some n \<longrightarrow> \<not> truthy n)))"
    then obtain lst where "last_of P v = Inr lst" and nameless: "get_name lst = None"
      using last_of_nameless [of v P] by blast
    then have "mostRecent P pg = Inr lst"
      using plain by (simp add: mostRecent_parsed)
    then show "\<exists>pg'. house_click P (filter is_path buildKundli ! i) pg = Inr pg' \<and>
        opened (house_html (String_nat (i + 1)) []) pg pg'"
      using owner_line_nameless [OF nameless] by (rule opens)
  next
    fix arr a
    assume last: "JSON_parse P (stored_text (item pg)) = Inr (JArr (arr @ [a])) \<and>
          (\<forall>n. get_name (Some a) = Some n \<longrightarrow> \<not> truthy n)"
    then have "mostRecent P pg = Inr (Some a)" by (intro mostRecent_last) simp
    moreover have "owner_line P (Some a) = Inr []"
      using last owner_line_none [of "Some a" P] by blast
    ultimately show "\<exists>pg'. house_click P (filter is_path buildKundli ! i) pg = Inr pg' \<and>
        opened (house_html (String_nat (i + 1)) []) pg pg'"
      by (rule opens)
  next
    fix arr kvs n shown
    assume named: "JSON_parse P (stored_text (item pg)) = Inr (JArr (arr @ [JObj kvs])) \<and>
          map_of kvs ''name'' = Some n \<and> truthy n \<and> to_string P n = Inr shown"
    then have "mostRecent P pg = Inr (Some (JObj kvs))" by (intro mostRecent_last) simp
    moreover have "owner_line P (Some (JObj kvs)) =
        Inr (''<p><strong>For:</strong> '' @ shown @ ''</p>'')"
      using named owner_line_named [of kvs n P shown] by blast
    ultimately show "\<exists>pg'. house_click P (filter is_path buildKundli ! i) pg = Inr pg' \<and>
        opened (house_html (String_nat (i + 1))
          (''<p><strong>For:</strong> '' @ shown @ ''</p>'')) pg pg'"
      by (rule opens)
  next
    fix s :: string
    assume "s \<noteq> []"
    then show "truthy (JStr s)" by simp
    show "to_string P (JStr s) = Inr s" by simp
  next
    fix e
    assume "JSON_parse P (stored_text (item pg)) = Inl e"
    then show "house_click P (filter is_path buildKundli ! i) pg = Inl e"
      by (rule house_click_parse_error)
  next
    assume "JSON_parse P (stored_text (item pg)) = Inr JNull"
    then have "mostRecent P pg = Inl TypeError" by (simp add: mostRecent_parsed)
    then show "house_click P (filter is_path buildKundli ! i) pg = Inl TypeError"
      by (rule house_click_lookup_error)
  next
    fix arr kvs nkvs member
    assume odd: "JSON_parse P (stored_text (item pg)) = Inr (JArr (arr @ [JObj kvs])) \<and>
          map_of kvs ''name'' = Some (JObj nkvs) \<and> map_of nkvs ''toString'' = Some member"
    then have "mostRecent P pg = Inr (Some (JObj kvs))" by (intro mostRecent_last) simp
    moreover have "owner_line P (Some (JObj kvs)) = Inl TypeError"
      using odd owner_line_own_toString [of kvs nkvs member P] by blast
    ultimately show "house_click P (filter is_path buildKundli ! i) pg = Inl TypeError"
      by (rule house_click_name_error)
  next
    fix e
    assume "mostRecent P pg = Inl e"
    then show "house_click P (filter is_path buildKundli ! i) pg = Inl e"
      by (rule house_click_lookup_error)
  next
    fix lst e
    assume "mostRecent P pg = Inr lst \<and> owner_line P lst = Inl e"
    then show "house_click P (filter is_path buildKundli ! i) pg = Inl e"
      using house_click_name_error [of P pg lst e "filter is_path buildKundli ! i"] by blast
  qed
qed

theorem house_click_personalizes_witness:
  "(4::nat) < 12 \<and>
   (\<exists>pg'. house_click sample_platform (filter is_path buildKundli ! 4)
        (page0\<lparr>item := Some (sample_stringify sample_journal)\<rparr>) = Inr pg' \<and>
      modals pg' = [\<lparr>modal_id = 0, content =
        ''<h3>House 5 - Short interpretation</h3><p><strong>For:</strong> Asha</p><p>Short generic interpretation for house 5. Book for full analysis.</p>''\<rparr>] \<and>
      focused pg' = Some 0 \<and> esc_listeners pg' = [0]) \<and>
   (\<exists>pg'. house_click sample_platform (filter is_path buildKundli ! 4) page0 = Inr pg' \<and>
      modals pg' = [\<lparr>modal_id = 0, content =
        ''<h3>House 5 - Short interpretation</h3><p>Short generic interpretation for house 5. Book for full analysis.</p>''\<rparr>] \<and>
      focused pg' = Some 0 \<and> esc_listeners pg' = [0]) \<and>
   (\<exists>pg'. house_click sample_platform (filter is_path buildKundli ! 4)
        (page0\<lparr>item := Some ''5''\<rparr>) = Inr pg' \<and>
      modals pg' = [\<lparr>modal_id = 0, content =
        ''<h3>House 5 - Short interpretation</h3><p>Short generic interpretation for house 5. Book for full analysis.</p>''\<rparr>]) \<and>
   (\<exists>pg'. house_click sample_platform (filter is_path buildKundli ! 4)
        (page0\<lparr>item := Some ''true''\<rparr>) = Inr pg' \<and>
      modals pg' = [\<lparr>modal_id = 0, content =
        ''<h3>House 5 - Short interpretation</h3><p>Short generic interpretation for house 5. Book for full analysis.</p>''\<rparr>]) \<and>
   (\<exists>pg'. house_click sample_platform (filter is_path buildKundli ! 4)
        (page0\<lparr>item := Some ''{}''\<rparr>) = Inr pg' \<and>
      modals pg' = [\<lparr>modal_id = 0, content =
        ''<h3>House 5 - Short interpretation</h3><p>Short generic interpretation for house 5. Book for full analysis.</p>''\<rparr>]) \<and>
   house_click sample_platform (filter is_path buildKundli ! 4)
     (page0\<lparr>item := Some ''{oops''\<rparr>) = Inl SyntaxError \<and>
   house_click sample_platform (filter is_path buildKundli ! 4)
     (page0\<lparr>item := Some ''null''\<rparr>) = Inl TypeError \<and>
   house_click sample_platform (filter is_path buildKundli ! 4)
     (page0\<lparr>item := Some (sample_stringify odd_journal)\<rparr>) = Inl TypeError"
proof -
  let ?T = "filter is_path buildKundli ! 4"
  let ?bad = "page0\<lparr>item := Some ''{oops''\<rparr>"
  let ?five = "page0\<lparr>item := Some ''5''\<rparr>"
  let ?true = "page0\<lparr>item := Some ''true''\<rparr>"
  let ?obj = "page0\<lparr>item := Some ''{}''\<rparr>"
  let ?null = "page0\<lparr>item := Some ''null''\<rparr>"
  let ?asha = "page0\<lparr>item := Some (sample_stringify sample_journal)\<rparr>"
  let ?odd = "page0\<lparr>item := Some (sample_stringify odd_journal)\<rparr>"
  let ?rec = "[(''name'', JStr ''Asha''), (''email'', JStr ''a@x.com''),
                 (''dob'', JStr ''1990-01-01''), (''created'', JStr ''T1'')]"
  let ?plain = "''<h3>House 5 - Short interpretation</h3><p>Short generic interpretation for house 5. Book for full analysis.</p>''"
  let ?named = "''<h3>House 5 - Short interpretation</h3><p><strong>For:</strong> Asha</p><p>Short generic interpretation for house 5. Book for full analysis.</p>''"
  note C3 = house_click_personalizes [of 4 sample_platform]
  have sector: "(4::nat) < 12" by simp
  have house: "String_nat (4 + 1) = ''5''" by (simp add: String_nat_5)
  have plain: "house_html (String_nat (4 + 1)) [] = ?plain"
    by (simp only: house) (simp add: house_html_def)
  have named: "house_html (String_nat (4 + 1)) (''<p><strong>For:</strong> '' @ ''Asha'' @ ''</p>'')
      = ?named"
    by (simp only: house) (simp add: house_html_def)
  have shown: "\<exists>pg'. house_click sample_platform ?T pg = Inr pg' \<and>
      modals pg' = [\<lparr>modal_id = 0, content = html\<rparr>] \<and> focused pg' = Some 0 \<and>
      esc_listeners pg' = [0]"
    if "\<exists>pg'. house_click sample_platform ?T pg = Inr pg' \<and> opened html pg pg'"
      and "modals pg = []" and "fresh pg = 0" and "esc_listeners pg = []" for pg html
    using that by (auto simp add: opened_def)
  have empty: "JSON_parse sample_platform (stored_text (item page0)) = Inr (JArr [])"
    by (simp add: page0_def stored_text_def)
  have bad: "JSON_parse sample_platform (stored_text (item ?bad)) = Inl SyntaxError"
    by simp
  have five: "JSON_parse sample_platform (stored_text (item ?five)) = Inr (JNum 5)"
    by simp
  have true: "JSON_parse sample_platform (stored_text (item ?true)) = Inr (JBool True)"
    by simp
  have obj: "JSON_parse sample_platform (stored_text (item ?obj)) = Inr (JObj [])"
    by simp
  have null: "JSON_parse sample_platform (stored_text (item ?null)) = Inr JNull"
    by simp
  have asha: "JSON_parse sample_platform (stored_text (item ?asha)) =
      Inr (JArr ([] @ [JObj ?rec]))"
    by (simp add: sample_journal_text_nonempty) (simp add: sample_journal_def)
  have odd: "JSON_parse sample_platform (stored_text (item ?odd)) =
      Inr (JArr ([] @ [JObj [(''name'', JObj [(''toString'', JNum 1)])]]))"
    by (simp add: sample_odd_text_nonempty) (simp add: odd_journal_def)
  have name: "map_of ?rec ''name'' = Some (JStr ''Asha'')" "truthy (JStr ''Asha'')"
    "to_string sample_platform (JStr ''Asha'') = Inr ''Asha''"
    by simp_all
  have odd_name: "map_of [(''name'', JObj [(''toString'', JNum 1)])] ''name'' =
      Some (JObj [(''toString'', JNum 1)])"
    "map_of [(''toString'', JNum 1)] ''toString'' = Some (JNum 1)"
    by simp_all
  have no_len: "\<forall>n. map_of [] ''length'' = Some n \<longrightarrow> \<not> truthy n" by simp
  have "\<exists>pg'. house_click sample_platform ?T ?asha = Inr pg' \<and>
      opened (house_html (String_nat (4 + 1)) (''<p><strong>For:</strong> '' @ ''Asha'' @ ''</p>''))
        ?asha pg'"
    using C3 [of ?asha] sector asha name by blast
  then have r1: "\<exists>pg'. house_click sample_platform ?T ?asha = Inr pg' \<and>
      modals pg' = [\<lparr>modal_id = 0, content = ?named\<rparr>] \<and> focused pg' = Some 0 \<and>
      esc_listeners pg' = [0]"
    unfolding named by (rule shown) (simp_all add: page0_def)
  have "\<exists>pg'. house_click sample_platform ?T page0 = Inr pg' \<and>
      opened (house_html (String_nat (4 + 1)) []) page0 pg'"
    using C3 [of page0] sector empty by blast
  then have r2: "\<exists>pg'. house_click sample_platform ?T page0 = Inr pg' \<and>
      modals pg' = [\<lparr>modal_id = 0, content = ?plain\<rparr>] \<and> focused pg' = Some 0 \<and>
      esc_listeners pg' = [0]"
    unfolding plain by (rule shown) (simp_all add: page0_def)
  have "\<exists>pg'. house_click sample_platform ?T ?five = Inr pg' \<and>
      opened (house_html (String_nat (4 + 1)) []) ?five pg'"
    using C3 [of ?five] sector five by blast
  then have "\<exists>pg'. house_click sample_platform ?T ?five = Inr pg' \<and>
      modals pg' = [\<lparr>modal_id = 0, content = ?plain\<rparr>] \<and> focused pg' = Some 0 \<and>
      esc_listeners pg' = [0]"
    unfolding plain by (rule shown) (simp_all add: page0_def)
  then have r3: "\<exists>pg'. house_click sample_platform ?T ?five = Inr pg' \<and>
      modals pg' = [\<lparr>modal_id = 0, content = ?plain\<rparr>]"
    by blast
  have "\<exists>pg'. house_click sample_platform ?T ?true = Inr pg' \<and>
      opened (house_html (String_nat (4 + 1)) []) ?true pg'"
    using C3 [of ?true] sector true by blast
  then have "\<exists>pg'. house_click sample_platform ?T ?true = Inr pg' \<and>
      modals pg' = [\<lparr>modal_id = 0, content = ?plain\<rparr>] \<and> focused pg' = Some 0 \<and>
      esc_listeners pg' = [0]"
    unfolding plain by (rule shown) (simp_all add: page0_def)
  then have r4: "\<exists>pg'. house_click sample_platform ?T ?true = Inr pg' \<and>
      modals pg' = [\<lparr>modal_id = 0, content = ?plain\<rparr>]"
    by blast
  have "\<exists>pg'. house_click sample_platform ?T ?obj = Inr pg' \<and>
      opened (house_html (String_nat (4 + 1)) []) ?obj pg'"
    using C3 [of ?obj] sector obj no_len by blast
  then have "\<exists>pg'. house_click sample_platform ?T ?obj = Inr pg' \<and>
      modals pg' = [\<lparr>modal_id = 0, content = ?plain\<rparr>] \<and> focused pg' = Some 0 \<and>
      esc_listeners pg' = [0]"
    unfolding plain by (rule shown) (simp_all add: page0_def)
  then have r5: "\<exists>pg'. house_click sample_platform ?T ?obj = Inr pg' \<and>
      modals pg' = [\<lparr>modal_id = 0, content = ?plain\<rparr>]"
    by blast
  have r6: "house_click sample_platform ?T ?bad = Inl SyntaxError"
    using C3 [of ?bad] sector bad by blast
  have r7: "house_click sample_platform ?T ?null = Inl TypeError"
    using C3 [of ?null] sector null by blast
  have r8: "house_click sample_platform ?T ?odd = Inl TypeError"
    using C3 [of ?odd] sector odd odd_name by blast
  show ?thesis
    using sector r1 r2 r3 r4 r5 r6 r7 r8 by blast
qed

end
